theory Spec2Isabelle
  imports Complex_Main
begin

section \<open>Numbers of the C++ source\<close>

text \<open>
  Solarlib computes with three kinds of numbers: \<^verbatim>\<open>int\<close> and \<^verbatim>\<open>long\<close>
  (the time zone offset, the day count), \<^verbatim>\<open>time_t\<close> (seconds since 1970-01-01),
  and \<^verbatim>\<open>double\<close>.

  Integers are modelled as \<^typ>\<open>int\<close>; the only integer operations of the source are
  two divisions by a positive constant, one multiplication by 60 and the conversions to
  and from \<^verbatim>\<open>double\<close>, and overflow of these is outside the model.

  A \<^verbatim>\<open>double\<close> is either a finite value, modelled as an exact real number, or
  \<open>NaN\<close>, which stands for every non-finite result (not-a-number or an infinity).
  Arithmetic on finite values is exact: rounding, overflow and the sign of zero are not
  modelled here (the blocks whose rounding a claim depends on are given a second time,
  in rounded arithmetic, in their own section below). An operation outside its domain (division by zero, \<^verbatim>\<open>acos\<close> or
  \<^verbatim>\<open>asin\<close> outside \<open>[-1, 1]\<close>, \<^verbatim>\<open>tan\<close> at a pole) gives \<open>NaN\<close>, every
  operation with a \<open>NaN\<close> argument gives \<open>NaN\<close>, and every comparison with \<open>NaN\<close>
  is false. The source passes a quotient whose divisor may be zero to \<^verbatim>\<open>acos\<close> only,
  which maps an infinity to not-a-number, so taking the infinities and not-a-number for
  one value changes no field of a result.

  \<^verbatim>\<open>time_t\<close> is modelled as \<^typ>\<open>int\<close> as well, a signed count of seconds; where
  the platform's \<^verbatim>\<open>time_t\<close> is unsigned, only the timestamps \<open>t \<ge> 0\<close> occur. Its
  range is not modelled: the conversion of a finite \<^verbatim>\<open>double\<close> beyond the range of
  \<^verbatim>\<open>time_t\<close>, which C leaves undefined, truncates here like any other.
\<close>

datatype double = Fin real | NaN

instantiation double :: "{zero, one, plus, minus, uminus, times, inverse, ord}"
begin

definition zero_double :: double where
  "zero_double = Fin 0"

definition one_double :: double where
  "one_double = Fin 1"

fun plus_double :: "double \<Rightarrow> double \<Rightarrow> double" where
  "plus_double (Fin a) (Fin b) = Fin (a + b)"
| "plus_double _ _ = NaN"

fun minus_double :: "double \<Rightarrow> double \<Rightarrow> double" where
  "minus_double (Fin a) (Fin b) = Fin (a - b)"
| "minus_double _ _ = NaN"

fun uminus_double :: "double \<Rightarrow> double" where
  "uminus_double (Fin a) = Fin (- a)"
| "uminus_double NaN = NaN"

fun times_double :: "double \<Rightarrow> double \<Rightarrow> double" where
  "times_double (Fin a) (Fin b) = Fin (a * b)"
| "times_double _ _ = NaN"

fun divide_double :: "double \<Rightarrow> double \<Rightarrow> double" where
  "divide_double (Fin a) (Fin b) = (if b = 0 then NaN else Fin (a / b))"
| "divide_double _ _ = NaN"

fun inverse_double :: "double \<Rightarrow> double" where
  "inverse_double (Fin a) = (if a = 0 then NaN else Fin (inverse a))"
| "inverse_double NaN = NaN"

fun less_double :: "double \<Rightarrow> double \<Rightarrow> bool" where
  "less_double (Fin a) (Fin b) = (a < b)"
| "less_double _ _ = False"

fun less_eq_double :: "double \<Rightarrow> double \<Rightarrow> bool" where
  "less_eq_double (Fin a) (Fin b) = (a \<le> b)"
| "less_eq_double _ _ = False"

instance ..

end

instance double :: semigroup_add
proof
  fix a b c :: double
  show "a + b + c = a + (b + c)"
    by (cases a; cases b; cases c) simp_all
qed

instance double :: numeral ..

instance double :: power ..

text \<open>Conversion of an integer (\<^verbatim>\<open>int\<close>, \<^verbatim>\<open>long\<close>) to \<^verbatim>\<open>double\<close>.\<close>

definition double_of_int :: "int \<Rightarrow> double" where
  "double_of_int i = Fin (of_int i)"

text \<open>
  Conversion of a \<^verbatim>\<open>double\<close> to the integer type \<^verbatim>\<open>time_t\<close>: a finite value is
  truncated towards zero. C leaves the conversion of a non-finite value undefined; the
  integer it yields on the platform is the parameter \<open>u\<close>.
\<close>

definition trunc :: "real \<Rightarrow> int" where
  "trunc x = (if 0 \<le> x then \<lfloor>x\<rfloor> else \<lceil>x\<rceil>)"

fun time_t_of_double :: "int \<Rightarrow> double \<Rightarrow> int" where
  "time_t_of_double u (Fin x) = trunc x"
| "time_t_of_double u NaN = u"

text \<open>C integer division truncates towards zero.\<close>

definition c_div :: "int \<Rightarrow> int \<Rightarrow> int" where
  "c_div a b = sgn a * sgn b * (\<bar>a\<bar> div \<bar>b\<bar>)"

subsection \<open>The functions of \<^verbatim>\<open>math.h\<close>\<close>

fun sin_d :: "double \<Rightarrow> double" where
  "sin_d (Fin x) = Fin (sin x)"
| "sin_d NaN = NaN"

fun cos_d :: "double \<Rightarrow> double" where
  "cos_d (Fin x) = Fin (cos x)"
| "cos_d NaN = NaN"

fun tan_d :: "double \<Rightarrow> double" where
  "tan_d (Fin x) = (if cos x = 0 then NaN else Fin (tan x))"
| "tan_d NaN = NaN"

fun asin_d :: "double \<Rightarrow> double" where
  "asin_d (Fin x) = (if - 1 \<le> x \<and> x \<le> 1 then Fin (arcsin x) else NaN)"
| "asin_d NaN = NaN"

fun acos_d :: "double \<Rightarrow> double" where
  "acos_d (Fin x) = (if - 1 \<le> x \<and> x \<le> 1 then Fin (arccos x) else NaN)"
| "acos_d NaN = NaN"

fun atan2_d :: "double \<Rightarrow> double \<Rightarrow> double" where
  "atan2_d (Fin y) (Fin x) =
     Fin (if 0 < x then arctan (y / x)
          else if x < 0 then (if 0 \<le> y then arctan (y / x) + pi else arctan (y / x) - pi)
          else if 0 < y then pi / 2
          else if y < 0 then - (pi / 2)
          else 0)"
| "atan2_d _ _ = NaN"

fun floor_d :: "double \<Rightarrow> double" where
  "floor_d (Fin x) = Fin (of_int \<lfloor>x\<rfloor>)"
| "floor_d NaN = NaN"

text \<open>\<^verbatim>\<open>pow\<close> is only called with the integer exponents 3 and 5.\<close>

fun pow_d :: "double \<Rightarrow> nat \<Rightarrow> double" where
  "pow_d (Fin x) n = Fin (x ^ n)"
| "pow_d NaN n = NaN"

subsection \<open>Constants and functions of the Arduino core and the Time library\<close>

text \<open>\<^verbatim>\<open>#define julianUnixEpoch 2440587.5\<close> (Solarlib.h).\<close>

definition julianUnixEpoch :: double where
  "julianUnixEpoch = 2440587.5"

text \<open>
  Modelled from the spec: the macros \<^verbatim>\<open>DEG_TO_RAD\<close> and \<^verbatim>\<open>RAD_TO_DEG\<close> come from
  Arduino.h, which is not part of the repository. The spec has every angle "converted
  degrees->radians before the call and results converted back"; the model takes the exact
  factors \<open>pi / 180\<close> and \<open>180 / pi\<close>.
\<close>

definition DEG_TO_RAD :: double where
  "DEG_TO_RAD = Fin (pi / 180)"

definition RAD_TO_DEG :: double where
  "RAD_TO_DEG = Fin (180 / pi)"

text \<open>
  Modelled from the spec: \<^verbatim>\<open>hour\<close>, \<^verbatim>\<open>minute\<close> and \<^verbatim>\<open>second\<close> come from the
  Time library, which is not part of the repository. The spec has them as "the UTC
  wall-clock components of \<open>t\<close>".
\<close>

definition second :: "int \<Rightarrow> int" where
  "second t = t mod 60"

definition minute :: "int \<Rightarrow> int" where
  "minute t = (t div 60) mod 60"

definition hour :: "int \<Rightarrow> int" where
  "hour t = (t div 3600) mod 24"

section \<open>The cache of calculated values (Solarlib.h)\<close>

record SolarElements =
  tzOffset :: int
  lat :: double
  lon :: double
  timeFracDay :: double
  unixDays :: int
  JDN :: double
  JCN :: double
  GMLS :: double
  GMAS :: double
  EEO :: double
  SEC :: double
  STL :: double
  STA :: double
  SRV :: double
  SAL :: double
  MOE :: double
  OC :: double
  SRA :: double
  SDec :: double
  vy :: double
  EOT :: double
  HAS :: double
  SolarNoonfrac :: double
  SolarNoonDays :: double
  SolarNoonTime :: int
  Sunrise :: double
  SunriseTime :: int
  Sunset :: double
  SunsetTime :: int
  SunDuration :: double
  TST :: double
  HA :: double
  SZA :: double
  SEA :: double
  AAR :: double
  SEC_Corr :: double
  SAA :: double

section \<open>Site configuration (Solarlib.cpp, lines 59-76)\<close>

text \<open>
  The source keeps one static \<^verbatim>\<open>SolarElements SE\<close>. Every function of the library
  takes this state and returns it updated; an accessor returns its value with the state.
\<close>

definition initSolarCalc :: "int \<Rightarrow> double \<Rightarrow> double \<Rightarrow> SolarElements \<Rightarrow> SolarElements" where
  "initSolarCalc tz la lo SE = SE\<lparr>tzOffset := tz, lat := la, lon := lo\<rparr>"

definition gettzOffset :: "SolarElements \<Rightarrow> int \<times> SolarElements" where
  "gettzOffset SE = (tzOffset SE, SE)"

definition getlat :: "SolarElements \<Rightarrow> double \<times> SolarElements" where
  "getlat SE = (lat SE, SE)"

definition getlon :: "SolarElements \<Rightarrow> double \<times> SolarElements" where
  "getlon SE = (lon SE, SE)"

section \<open>The solar calculation (Solarlib.cpp, lines 246-408)\<close>

text \<open>
  \<^verbatim>\<open>calcSolar\<close> is a sequence of assignments to the fields of \<^verbatim>\<open>SE\<close>. Each block
  of assignments to one field is one function on the state, named after the field; a
  later assignment of a block reads the state the earlier one wrote.
\<close>

text \<open>Lines 249-250. The quotient \<^verbatim>\<open>second(t)/60\<close> is a division of integers.\<close>

definition calc_timeFracDay :: "int \<Rightarrow> SolarElements \<Rightarrow> SolarElements" where
  "calc_timeFracDay t SE =
     SE\<lparr>timeFracDay :=
          ((double_of_int (c_div (second t) 60) + double_of_int (minute t)) / 60
            + double_of_int (hour t)) / 24\<rparr>"

text \<open>Line 254.\<close>

definition calc_unixDays :: "int \<Rightarrow> SolarElements \<Rightarrow> SolarElements" where
  "calc_unixDays t SE = SE\<lparr>unixDays := c_div t 86400\<rparr>"

text \<open>Lines 256-262.\<close>

definition calc_JDN :: "SolarElements \<Rightarrow> SolarElements" where
  "calc_JDN SE =
     (let SE = SE\<lparr>JDN := julianUnixEpoch + double_of_int (unixDays SE)\<rparr>;
          SE = SE\<lparr>JDN := JDN SE + timeFracDay SE\<rparr>;
          SE = SE\<lparr>JDN := JDN SE - double_of_int (tzOffset SE) / 24\<rparr>
      in SE)"

text \<open>Line 264.\<close>

definition calc_JCN :: "SolarElements \<Rightarrow> SolarElements" where
  "calc_JCN SE = SE\<lparr>JCN := (JDN SE - 2451545) / 36525\<rparr>"

text \<open>Lines 266-270.\<close>

definition calc_GMLS :: "SolarElements \<Rightarrow> SolarElements" where
  "calc_GMLS SE =
     (let SE = SE\<lparr>GMLS := 280.46646 + JCN SE * (36000.76983 + JCN SE * 0.0003032)\<rparr>;
          SE = SE\<lparr>GMLS := GMLS SE - 360 * floor_d (GMLS SE / 360)\<rparr>
      in SE)"

text \<open>Line 272.\<close>

definition calc_GMAS :: "SolarElements \<Rightarrow> SolarElements" where
  "calc_GMAS SE = SE\<lparr>GMAS := 357.52911 + JCN SE * (35999.05029 - 0.0001537 * JCN SE)\<rparr>"

text \<open>Line 275.\<close>

definition calc_EEO :: "SolarElements \<Rightarrow> SolarElements" where
  "calc_EEO SE = SE\<lparr>EEO := 0.016708634 - JCN SE * (0.000042037 + 0.0000001267 * JCN SE)\<rparr>"

text \<open>Lines 277-280.\<close>

definition calc_SEC :: "SolarElements \<Rightarrow> SolarElements" where
  "calc_SEC SE =
     SE\<lparr>SEC :=
          sin_d (GMAS SE * DEG_TO_RAD) * (1.914602 - JCN SE * (0.004817 + 0.000014 * JCN SE))
          + sin_d (2 * GMAS SE * DEG_TO_RAD) * (0.019993 - 0.000101 * JCN SE)
          + sin_d (3 * GMAS SE * DEG_TO_RAD) * 0.000289\<rparr>"

text \<open>Line 282.\<close>

definition calc_STL :: "SolarElements \<Rightarrow> SolarElements" where
  "calc_STL SE = SE\<lparr>STL := GMLS SE + SEC SE\<rparr>"

text \<open>Line 284.\<close>

definition calc_STA :: "SolarElements \<Rightarrow> SolarElements" where
  "calc_STA SE = SE\<lparr>STA := GMAS SE + SEC SE\<rparr>"

text \<open>Lines 286-287.\<close>

definition calc_SRV :: "SolarElements \<Rightarrow> SolarElements" where
  "calc_SRV SE =
     SE\<lparr>SRV := 1.000001018 * (1 - EEO SE * EEO SE)
                 / (1 + EEO SE * cos_d (STA SE * DEG_TO_RAD))\<rparr>"

text \<open>Lines 289-290.\<close>

definition calc_SAL :: "SolarElements \<Rightarrow> SolarElements" where
  "calc_SAL SE =
     SE\<lparr>SAL := STL SE - 0.00569
                 - 0.00478 * sin_d ((125.04 - 1934.136 * JCN SE) * DEG_TO_RAD)\<rparr>"

text \<open>Lines 292-293.\<close>

definition calc_MOE :: "SolarElements \<Rightarrow> SolarElements" where
  "calc_MOE SE =
     SE\<lparr>MOE := 23 + (26 + (21.448 - JCN SE * (46.815 + JCN SE *
                     (0.00059 - JCN SE * 0.001813))) / 60) / 60\<rparr>"

text \<open>Line 295.\<close>

definition calc_OC :: "SolarElements \<Rightarrow> SolarElements" where
  "calc_OC SE =
     SE\<lparr>OC := MOE SE + 0.00256 * cos_d ((125.04 - 1934.136 * JCN SE) * DEG_TO_RAD)\<rparr>"

text \<open>Lines 297-298.\<close>

definition calc_SRA :: "SolarElements \<Rightarrow> SolarElements" where
  "calc_SRA SE =
     SE\<lparr>SRA := atan2_d (cos_d (OC SE * DEG_TO_RAD) * sin_d (SAL SE * DEG_TO_RAD))
                         (cos_d (SAL SE * DEG_TO_RAD)) * RAD_TO_DEG\<rparr>"

text \<open>Lines 300-301.\<close>

definition calc_SDec :: "SolarElements \<Rightarrow> SolarElements" where
  "calc_SDec SE =
     SE\<lparr>SDec := asin_d (sin_d (OC SE * DEG_TO_RAD) * sin_d (SAL SE * DEG_TO_RAD))
                  * RAD_TO_DEG\<rparr>"

text \<open>Line 303.\<close>

definition calc_vy :: "SolarElements \<Rightarrow> SolarElements" where
  "calc_vy SE = SE\<lparr>vy := tan_d (OC SE / 2 * DEG_TO_RAD) * tan_d (OC SE / 2 * DEG_TO_RAD)\<rparr>"

text \<open>Lines 306-312.\<close>

definition calc_EOT :: "SolarElements \<Rightarrow> SolarElements" where
  "calc_EOT SE =
     SE\<lparr>EOT := 4 * ((vy SE * sin_d (2 * (GMLS SE * DEG_TO_RAD))
                      - 2 * EEO SE * sin_d (GMAS SE * DEG_TO_RAD)
                      + 4 * EEO SE * vy SE * sin_d (GMAS SE * DEG_TO_RAD)
                          * cos_d (2 * (GMLS SE * DEG_TO_RAD))
                      - 0.5 * vy SE * vy SE * sin_d (4 * (GMLS SE * DEG_TO_RAD))
                      - 1.25 * EEO SE * EEO SE * sin_d (2 * (GMAS SE * DEG_TO_RAD)))
                     * RAD_TO_DEG)\<rparr>"

text \<open>Lines 314-317.\<close>

definition calc_HAS :: "SolarElements \<Rightarrow> SolarElements" where
  "calc_HAS SE =
     SE\<lparr>HAS := acos_d (cos_d (90.833 * DEG_TO_RAD)
                          / (cos_d (lat SE * DEG_TO_RAD) * cos_d (SDec SE * DEG_TO_RAD))
                        - tan_d (lat SE * DEG_TO_RAD) * tan_d (SDec SE * DEG_TO_RAD))
                 * RAD_TO_DEG\<rparr>"

text \<open>Line 320.\<close>

definition calc_SolarNoonfrac :: "SolarElements \<Rightarrow> SolarElements" where
  "calc_SolarNoonfrac SE = SE\<lparr>SolarNoonfrac := (720 - 4 * lon SE - EOT SE) / 1440\<rparr>"

text \<open>Lines 324-327.\<close>

definition calc_SolarNoonDays :: "SolarElements \<Rightarrow> SolarElements" where
  "calc_SolarNoonDays SE =
     (let SE = SE\<lparr>SolarNoonDays := double_of_int (unixDays SE) + SolarNoonfrac SE\<rparr>;
          SE = SE\<lparr>SolarNoonDays := SolarNoonDays SE + double_of_int (tzOffset SE) / 24\<rparr>
      in SE)"

text \<open>Line 329: the product is converted to \<^verbatim>\<open>time_t\<close> by the assignment.\<close>

definition calc_SolarNoonTime :: "int \<Rightarrow> SolarElements \<Rightarrow> SolarElements" where
  "calc_SolarNoonTime u SE =
     SE\<lparr>SolarNoonTime := time_t_of_double u (SolarNoonDays SE * 86400)\<rparr>"

text \<open>Lines 331-337.\<close>

definition calc_Sunrise :: "SolarElements \<Rightarrow> SolarElements" where
  "calc_Sunrise SE =
     (let SE = SE\<lparr>Sunrise := SolarNoonfrac SE - HAS SE * 4 / 1440\<rparr>;
          SE = SE\<lparr>Sunrise := double_of_int (unixDays SE) + Sunrise SE\<rparr>;
          SE = SE\<lparr>Sunrise := Sunrise SE + double_of_int (tzOffset SE) / 24\<rparr>;
          SE = SE\<lparr>Sunrise := Sunrise SE * 86400\<rparr>
      in SE)"

text \<open>Line 339.\<close>

definition calc_SunriseTime :: "int \<Rightarrow> SolarElements \<Rightarrow> SolarElements" where
  "calc_SunriseTime u SE = SE\<lparr>SunriseTime := time_t_of_double u (Sunrise SE)\<rparr>"

text \<open>Lines 341-347.\<close>

definition calc_Sunset :: "SolarElements \<Rightarrow> SolarElements" where
  "calc_Sunset SE =
     (let SE = SE\<lparr>Sunset := SolarNoonfrac SE + HAS SE * 4 / 1440\<rparr>;
          SE = SE\<lparr>Sunset := double_of_int (unixDays SE) + Sunset SE\<rparr>;
          SE = SE\<lparr>Sunset := Sunset SE + double_of_int (tzOffset SE) / 24\<rparr>;
          SE = SE\<lparr>Sunset := Sunset SE * 86400\<rparr>
      in SE)"

text \<open>Line 349.\<close>

definition calc_SunsetTime :: "int \<Rightarrow> SolarElements \<Rightarrow> SolarElements" where
  "calc_SunsetTime u SE = SE\<lparr>SunsetTime := time_t_of_double u (Sunset SE)\<rparr>"

text \<open>Line 351.\<close>

definition calc_SunDuration :: "SolarElements \<Rightarrow> SolarElements" where
  "calc_SunDuration SE = SE\<lparr>SunDuration := 8 * HAS SE\<rparr>"

text \<open>Lines 353-358. The product \<^verbatim>\<open>60 * SE.tzOffset\<close> is a product of integers.\<close>

definition calc_TST :: "SolarElements \<Rightarrow> SolarElements" where
  "calc_TST SE =
     (let SE = SE\<lparr>TST := timeFracDay SE * 1440 + EOT SE + 4 * lon SE
                            - double_of_int (60 * tzOffset SE)\<rparr>;
          SE = SE\<lparr>TST := TST SE - 1440 * floor_d (TST SE / 1440)\<rparr>
      in SE)"

text \<open>
  Lines 360-364. When neither comparison holds (\<^verbatim>\<open>TST\<close> is not a number) the field
  \<^verbatim>\<open>HA\<close> keeps the value it had.
\<close>

definition calc_HA :: "SolarElements \<Rightarrow> SolarElements" where
  "calc_HA SE =
     (if TST SE / 4 < 0 then SE\<lparr>HA := TST SE / 4 + 180\<rparr>
      else if TST SE / 4 \<ge> 0 then SE\<lparr>HA := TST SE / 4 - 180\<rparr>
      else SE)"

text \<open>Lines 366-370.\<close>

definition calc_SZA :: "SolarElements \<Rightarrow> SolarElements" where
  "calc_SZA SE =
     SE\<lparr>SZA := acos_d (sin_d (lat SE * DEG_TO_RAD) * sin_d (SDec SE * DEG_TO_RAD)
                        + cos_d (lat SE * DEG_TO_RAD) * cos_d (SDec SE * DEG_TO_RAD)
                          * cos_d (HA SE * DEG_TO_RAD))
                 * RAD_TO_DEG\<rparr>"

text \<open>Line 372.\<close>

definition calc_SEA :: "SolarElements \<Rightarrow> SolarElements" where
  "calc_SEA SE = SE\<lparr>SEA := 90 - SZA SE\<rparr>"

text \<open>Lines 374-386.\<close>

definition calc_AAR :: "SolarElements \<Rightarrow> SolarElements" where
  "calc_AAR SE =
     (let SE =
            (if SEA SE > 85 then SE\<lparr>AAR := 0\<rparr>
             else if SEA SE > 5 then
               SE\<lparr>AAR := 58.1 / tan_d (SEA SE * DEG_TO_RAD)
                           - 0.07 / pow_d (tan_d (SEA SE * DEG_TO_RAD)) 3
                           + 0.000086 / pow_d (tan_d (SEA SE * DEG_TO_RAD)) 5\<rparr>
             else if SEA SE > - 0.575 then
               SE\<lparr>AAR := 1735 + SEA SE * (- 581.2 * SEA SE *
                             (103.4 + SEA SE * (- 12.79 + SEA SE * 0.711)))\<rparr>
             else SE\<lparr>AAR := - 20.772 / tan_d (SEA SE * DEG_TO_RAD)\<rparr>);
          SE = SE\<lparr>AAR := AAR SE / 3600.0\<rparr>
      in SE)"

text \<open>Line 389.\<close>

definition calc_SEC_Corr :: "SolarElements \<Rightarrow> SolarElements" where
  "calc_SEC_Corr SE = SE\<lparr>SEC_Corr := SEA SE + AAR SE\<rparr>"

text \<open>Lines 391-407.\<close>

definition calc_SAA :: "SolarElements \<Rightarrow> SolarElements" where
  "calc_SAA SE =
     (if HA SE > 0 then
        (let SE = SE\<lparr>SAA := acos_d ((sin_d (lat SE * DEG_TO_RAD) * cos_d (SZA SE * DEG_TO_RAD)
                                       - sin_d (SDec SE * DEG_TO_RAD))
                                      / (cos_d (lat SE * DEG_TO_RAD) * sin_d (SZA SE * DEG_TO_RAD)))
                              * RAD_TO_DEG + 180\<rparr>;
             SE = SE\<lparr>SAA := SAA SE - 360 * floor_d (SAA SE / 360)\<rparr>
         in SE)
      else
        (let SE = SE\<lparr>SAA := 540 - acos_d ((sin_d (lat SE * DEG_TO_RAD) * cos_d (SZA SE * DEG_TO_RAD)
                                             - sin_d (SDec SE * DEG_TO_RAD))
                                            / (cos_d (lat SE * DEG_TO_RAD) * sin_d (SZA SE * DEG_TO_RAD)))
                                    * RAD_TO_DEG\<rparr>;
             SE = SE\<lparr>SAA := SAA SE - 360 * floor_d (SAA SE / 360)\<rparr>
         in SE))"

text \<open>
  The whole of \<^verbatim>\<open>calcSolar\<close>, in the order of the source. The argument \<open>u\<close> is the
  integer that the conversion of a non-finite \<^verbatim>\<open>double\<close> to \<^verbatim>\<open>time_t\<close> yields;
  \<open>t\<close> and \<open>SE\<close> are the arguments of the source.
\<close>

definition calcSolar :: "int \<Rightarrow> int \<Rightarrow> SolarElements \<Rightarrow> SolarElements" where
  "calcSolar u t SE =
     (let SE = calc_timeFracDay t SE;
          SE = calc_unixDays t SE;
          SE = calc_JDN SE;
          SE = calc_JCN SE;
          SE = calc_GMLS SE;
          SE = calc_GMAS SE;
          SE = calc_EEO SE;
          SE = calc_SEC SE;
          SE = calc_STL SE;
          SE = calc_STA SE;
          SE = calc_SRV SE;
          SE = calc_SAL SE;
          SE = calc_MOE SE;
          SE = calc_OC SE;
          SE = calc_SRA SE;
          SE = calc_SDec SE;
          SE = calc_vy SE;
          SE = calc_EOT SE;
          SE = calc_HAS SE;
          SE = calc_SolarNoonfrac SE;
          SE = calc_SolarNoonDays SE;
          SE = calc_SolarNoonTime u SE;
          SE = calc_Sunrise SE;
          SE = calc_SunriseTime u SE;
          SE = calc_Sunset SE;
          SE = calc_SunsetTime u SE;
          SE = calc_SunDuration SE;
          SE = calc_TST SE;
          SE = calc_HA SE;
          SE = calc_SZA SE;
          SE = calc_SEA SE;
          SE = calc_AAR SE;
          SE = calc_SEC_Corr SE;
          SE = calc_SAA SE
      in SE)"

section \<open>The accessors (Solarlib.cpp, lines 77-242)\<close>

text \<open>Every accessor with a time argument runs \<^verbatim>\<open>calcSolar\<close> and reads one field.\<close>

definition gettimeFracDay :: "int \<Rightarrow> int \<Rightarrow> SolarElements \<Rightarrow> double \<times> SolarElements" where
  "gettimeFracDay u t SE = (let SE = calcSolar u t SE in (timeFracDay SE, SE))"

definition getunixDays :: "int \<Rightarrow> int \<Rightarrow> SolarElements \<Rightarrow> int \<times> SolarElements" where
  "getunixDays u t SE = (let SE = calcSolar u t SE in (unixDays SE, SE))"

definition getJDN :: "int \<Rightarrow> int \<Rightarrow> SolarElements \<Rightarrow> double \<times> SolarElements" where
  "getJDN u t SE = (let SE = calcSolar u t SE in (JDN SE, SE))"

definition getJCN :: "int \<Rightarrow> int \<Rightarrow> SolarElements \<Rightarrow> double \<times> SolarElements" where
  "getJCN u t SE = (let SE = calcSolar u t SE in (JCN SE, SE))"

definition getGMLS :: "int \<Rightarrow> int \<Rightarrow> SolarElements \<Rightarrow> double \<times> SolarElements" where
  "getGMLS u t SE = (let SE = calcSolar u t SE in (GMLS SE, SE))"

definition getGMAS :: "int \<Rightarrow> int \<Rightarrow> SolarElements \<Rightarrow> double \<times> SolarElements" where
  "getGMAS u t SE = (let SE = calcSolar u t SE in (GMAS SE, SE))"

definition getEEO :: "int \<Rightarrow> int \<Rightarrow> SolarElements \<Rightarrow> double \<times> SolarElements" where
  "getEEO u t SE = (let SE = calcSolar u t SE in (EEO SE, SE))"

definition getSEC :: "int \<Rightarrow> int \<Rightarrow> SolarElements \<Rightarrow> double \<times> SolarElements" where
  "getSEC u t SE = (let SE = calcSolar u t SE in (SEC SE, SE))"

definition getSTL :: "int \<Rightarrow> int \<Rightarrow> SolarElements \<Rightarrow> double \<times> SolarElements" where
  "getSTL u t SE = (let SE = calcSolar u t SE in (STL SE, SE))"

definition getSTA :: "int \<Rightarrow> int \<Rightarrow> SolarElements \<Rightarrow> double \<times> SolarElements" where
  "getSTA u t SE = (let SE = calcSolar u t SE in (STA SE, SE))"

definition getSRV :: "int \<Rightarrow> int \<Rightarrow> SolarElements \<Rightarrow> double \<times> SolarElements" where
  "getSRV u t SE = (let SE = calcSolar u t SE in (SRV SE, SE))"

definition getSAL :: "int \<Rightarrow> int \<Rightarrow> SolarElements \<Rightarrow> double \<times> SolarElements" where
  "getSAL u t SE = (let SE = calcSolar u t SE in (SAL SE, SE))"

definition getMOE :: "int \<Rightarrow> int \<Rightarrow> SolarElements \<Rightarrow> double \<times> SolarElements" where
  "getMOE u t SE = (let SE = calcSolar u t SE in (MOE SE, SE))"

text \<open>Lines 139-142: \<^verbatim>\<open>getOC\<close> returns \<^verbatim>\<open>SE.MOE\<close>.\<close>

definition getOC :: "int \<Rightarrow> int \<Rightarrow> SolarElements \<Rightarrow> double \<times> SolarElements" where
  "getOC u t SE = (let SE = calcSolar u t SE in (MOE SE, SE))"

definition getSRA :: "int \<Rightarrow> int \<Rightarrow> SolarElements \<Rightarrow> double \<times> SolarElements" where
  "getSRA u t SE = (let SE = calcSolar u t SE in (SRA SE, SE))"

definition getSDec :: "int \<Rightarrow> int \<Rightarrow> SolarElements \<Rightarrow> double \<times> SolarElements" where
  "getSDec u t SE = (let SE = calcSolar u t SE in (SDec SE, SE))"

definition getvy :: "int \<Rightarrow> int \<Rightarrow> SolarElements \<Rightarrow> double \<times> SolarElements" where
  "getvy u t SE = (let SE = calcSolar u t SE in (vy SE, SE))"

definition getEOT :: "int \<Rightarrow> int \<Rightarrow> SolarElements \<Rightarrow> double \<times> SolarElements" where
  "getEOT u t SE = (let SE = calcSolar u t SE in (EOT SE, SE))"

definition getHAS :: "int \<Rightarrow> int \<Rightarrow> SolarElements \<Rightarrow> double \<times> SolarElements" where
  "getHAS u t SE = (let SE = calcSolar u t SE in (HAS SE, SE))"

definition getSolarNoonfrac :: "int \<Rightarrow> int \<Rightarrow> SolarElements \<Rightarrow> double \<times> SolarElements" where
  "getSolarNoonfrac u t SE = (let SE = calcSolar u t SE in (SolarNoonfrac SE, SE))"

definition getSolarNoonDays :: "int \<Rightarrow> int \<Rightarrow> SolarElements \<Rightarrow> double \<times> SolarElements" where
  "getSolarNoonDays u t SE = (let SE = calcSolar u t SE in (SolarNoonDays SE, SE))"

definition getSolarNoonTime :: "int \<Rightarrow> int \<Rightarrow> SolarElements \<Rightarrow> int \<times> SolarElements" where
  "getSolarNoonTime u t SE = (let SE = calcSolar u t SE in (SolarNoonTime SE, SE))"

definition getSunrise :: "int \<Rightarrow> int \<Rightarrow> SolarElements \<Rightarrow> double \<times> SolarElements" where
  "getSunrise u t SE = (let SE = calcSolar u t SE in (Sunrise SE, SE))"

definition getSunriseTime :: "int \<Rightarrow> int \<Rightarrow> SolarElements \<Rightarrow> int \<times> SolarElements" where
  "getSunriseTime u t SE = (let SE = calcSolar u t SE in (SunriseTime SE, SE))"

definition getSunset :: "int \<Rightarrow> int \<Rightarrow> SolarElements \<Rightarrow> double \<times> SolarElements" where
  "getSunset u t SE = (let SE = calcSolar u t SE in (Sunset SE, SE))"

definition getSunsetTime :: "int \<Rightarrow> int \<Rightarrow> SolarElements \<Rightarrow> int \<times> SolarElements" where
  "getSunsetTime u t SE = (let SE = calcSolar u t SE in (SunsetTime SE, SE))"

definition getSunDuration :: "int \<Rightarrow> int \<Rightarrow> SolarElements \<Rightarrow> double \<times> SolarElements" where
  "getSunDuration u t SE = (let SE = calcSolar u t SE in (SunDuration SE, SE))"

definition getTST :: "int \<Rightarrow> int \<Rightarrow> SolarElements \<Rightarrow> double \<times> SolarElements" where
  "getTST u t SE = (let SE = calcSolar u t SE in (TST SE, SE))"

definition getHA :: "int \<Rightarrow> int \<Rightarrow> SolarElements \<Rightarrow> double \<times> SolarElements" where
  "getHA u t SE = (let SE = calcSolar u t SE in (HA SE, SE))"

definition getSZA :: "int \<Rightarrow> int \<Rightarrow> SolarElements \<Rightarrow> double \<times> SolarElements" where
  "getSZA u t SE = (let SE = calcSolar u t SE in (SZA SE, SE))"

definition getSEA :: "int \<Rightarrow> int \<Rightarrow> SolarElements \<Rightarrow> double \<times> SolarElements" where
  "getSEA u t SE = (let SE = calcSolar u t SE in (SEA SE, SE))"

definition getAAR :: "int \<Rightarrow> int \<Rightarrow> SolarElements \<Rightarrow> double \<times> SolarElements" where
  "getAAR u t SE = (let SE = calcSolar u t SE in (AAR SE, SE))"

definition getSEC_Corr :: "int \<Rightarrow> int \<Rightarrow> SolarElements \<Rightarrow> double \<times> SolarElements" where
  "getSEC_Corr u t SE = (let SE = calcSolar u t SE in (SEC_Corr SE, SE))"

definition getSAA :: "int \<Rightarrow> int \<Rightarrow> SolarElements \<Rightarrow> double \<times> SolarElements" where
  "getSAA u t SE = (let SE = calcSolar u t SE in (SAA SE, SE))"

text \<open>
  Line 56: \<^verbatim>\<open>static SolarElements SE\<close>. An object of static storage duration starts
  with every field zero.
\<close>

definition SE_static :: SolarElements where
  "SE_static =
     \<lparr>tzOffset = 0, lat = 0, lon = 0, timeFracDay = 0, unixDays = 0, JDN = 0, JCN = 0,
      GMLS = 0, GMAS = 0, EEO = 0, SEC = 0, STL = 0, STA = 0, SRV = 0, SAL = 0, MOE = 0,
      OC = 0, SRA = 0, SDec = 0, vy = 0, EOT = 0, HAS = 0, SolarNoonfrac = 0,
      SolarNoonDays = 0, SolarNoonTime = 0, Sunrise = 0, SunriseTime = 0, Sunset = 0,
      SunsetTime = 0, SunDuration = 0, TST = 0, HA = 0, SZA = 0, SEA = 0, AAR = 0,
      SEC_Corr = 0, SAA = 0\<rparr>"


section \<open>Double arithmetic with rounding\<close>




















section \<open>Arithmetic of the number model\<close>

lemma zero_double [simp]: "(0::double) = Fin 0"
  by (simp add: zero_double_def)

lemma one_double [simp]: "(1::double) = Fin 1"
  by (simp add: one_double_def)

lemma numeral_double [simp]: "(numeral n :: double) = Fin (numeral n)"
  by (induction n) (simp_all only: numeral.simps plus_double.simps one_double_def)

lemma Fin_power [simp]: "Fin a ^ n = Fin (a ^ n)"
  by (induction n) simp_all

lemma NaN_absorbs [simp]:
  "x + NaN = NaN" "NaN + x = NaN" "x - NaN = NaN" "NaN - x = NaN"
  "x * NaN = NaN" "NaN * x = NaN" "x / NaN = NaN" "NaN / x = NaN"
  by (cases x; simp)+

lemma NaN_compare [simp]:
  "\<not> x < NaN" "\<not> NaN < x" "\<not> x \<le> NaN" "\<not> NaN \<le> x"
  by (cases x; simp)+

section \<open>Frame lemmas\<close>

text \<open>
  A block of assignments changes its own field only. The lemmas list, for each block, the
  fields that hold a value when the block runs: the configuration and the fields written
  before it (and \<open>HA\<close>, which its block may leave as it was).
\<close>

lemma calc_timeFracDay_frame [simp]:
  "tzOffset (calc_timeFracDay t SE) = tzOffset SE" "lat (calc_timeFracDay t SE) = lat SE"
  "lon (calc_timeFracDay t SE) = lon SE" "HA (calc_timeFracDay t SE) = HA SE"
  by (simp_all add: calc_timeFracDay_def Let_def)

lemma calc_unixDays_frame [simp]:
  "tzOffset (calc_unixDays t SE) = tzOffset SE" "lat (calc_unixDays t SE) = lat SE"
  "lon (calc_unixDays t SE) = lon SE" "timeFracDay (calc_unixDays t SE) = timeFracDay SE"
  "HA (calc_unixDays t SE) = HA SE"
  by (simp_all add: calc_unixDays_def Let_def)

lemma calc_JDN_frame [simp]:
  "tzOffset (calc_JDN SE) = tzOffset SE" "lat (calc_JDN SE) = lat SE"
  "lon (calc_JDN SE) = lon SE" "timeFracDay (calc_JDN SE) = timeFracDay SE"
  "unixDays (calc_JDN SE) = unixDays SE" "HA (calc_JDN SE) = HA SE"
  by (simp_all add: calc_JDN_def Let_def)

lemma calc_JCN_frame [simp]:
  "tzOffset (calc_JCN SE) = tzOffset SE" "lat (calc_JCN SE) = lat SE"
  "lon (calc_JCN SE) = lon SE" "timeFracDay (calc_JCN SE) = timeFracDay SE"
  "unixDays (calc_JCN SE) = unixDays SE" "JDN (calc_JCN SE) = JDN SE"
  "HA (calc_JCN SE) = HA SE"
  by (simp_all add: calc_JCN_def Let_def)

lemma calc_GMLS_frame [simp]:
  "tzOffset (calc_GMLS SE) = tzOffset SE" "lat (calc_GMLS SE) = lat SE"
  "lon (calc_GMLS SE) = lon SE" "timeFracDay (calc_GMLS SE) = timeFracDay SE"
  "unixDays (calc_GMLS SE) = unixDays SE" "JDN (calc_GMLS SE) = JDN SE"
  "JCN (calc_GMLS SE) = JCN SE" "HA (calc_GMLS SE) = HA SE"
  by (simp_all add: calc_GMLS_def Let_def)

lemma calc_GMAS_frame [simp]:
  "tzOffset (calc_GMAS SE) = tzOffset SE" "lat (calc_GMAS SE) = lat SE"
  "lon (calc_GMAS SE) = lon SE" "timeFracDay (calc_GMAS SE) = timeFracDay SE"
  "unixDays (calc_GMAS SE) = unixDays SE" "JDN (calc_GMAS SE) = JDN SE"
  "JCN (calc_GMAS SE) = JCN SE" "GMLS (calc_GMAS SE) = GMLS SE" "HA (calc_GMAS SE) = HA SE"
  by (simp_all add: calc_GMAS_def Let_def)

lemma calc_EEO_frame [simp]:
  "tzOffset (calc_EEO SE) = tzOffset SE" "lat (calc_EEO SE) = lat SE"
  "lon (calc_EEO SE) = lon SE" "timeFracDay (calc_EEO SE) = timeFracDay SE"
  "unixDays (calc_EEO SE) = unixDays SE" "JDN (calc_EEO SE) = JDN SE"
  "JCN (calc_EEO SE) = JCN SE" "GMLS (calc_EEO SE) = GMLS SE" "GMAS (calc_EEO SE) = GMAS SE"
  "HA (calc_EEO SE) = HA SE"
  by (simp_all add: calc_EEO_def Let_def)

lemma calc_SEC_frame [simp]:
  "tzOffset (calc_SEC SE) = tzOffset SE" "lat (calc_SEC SE) = lat SE"
  "lon (calc_SEC SE) = lon SE" "timeFracDay (calc_SEC SE) = timeFracDay SE"
  "unixDays (calc_SEC SE) = unixDays SE" "JDN (calc_SEC SE) = JDN SE"
  "JCN (calc_SEC SE) = JCN SE" "GMLS (calc_SEC SE) = GMLS SE" "GMAS (calc_SEC SE) = GMAS SE"
  "EEO (calc_SEC SE) = EEO SE" "HA (calc_SEC SE) = HA SE"
  by (simp_all add: calc_SEC_def Let_def)

lemma calc_STL_frame [simp]:
  "tzOffset (calc_STL SE) = tzOffset SE" "lat (calc_STL SE) = lat SE"
  "lon (calc_STL SE) = lon SE" "timeFracDay (calc_STL SE) = timeFracDay SE"
  "unixDays (calc_STL SE) = unixDays SE" "JDN (calc_STL SE) = JDN SE"
  "JCN (calc_STL SE) = JCN SE" "GMLS (calc_STL SE) = GMLS SE" "GMAS (calc_STL SE) = GMAS SE"
  "EEO (calc_STL SE) = EEO SE" "SEC (calc_STL SE) = SEC SE" "HA (calc_STL SE) = HA SE"
  by (simp_all add: calc_STL_def Let_def)

lemma calc_STA_frame [simp]:
  "tzOffset (calc_STA SE) = tzOffset SE" "lat (calc_STA SE) = lat SE"
  "lon (calc_STA SE) = lon SE" "timeFracDay (calc_STA SE) = timeFracDay SE"
  "unixDays (calc_STA SE) = unixDays SE" "JDN (calc_STA SE) = JDN SE"
  "JCN (calc_STA SE) = JCN SE" "GMLS (calc_STA SE) = GMLS SE" "GMAS (calc_STA SE) = GMAS SE"
  "EEO (calc_STA SE) = EEO SE" "SEC (calc_STA SE) = SEC SE" "STL (calc_STA SE) = STL SE"
  "HA (calc_STA SE) = HA SE"
  by (simp_all add: calc_STA_def Let_def)

lemma calc_SRV_frame [simp]:
  "tzOffset (calc_SRV SE) = tzOffset SE" "lat (calc_SRV SE) = lat SE"
  "lon (calc_SRV SE) = lon SE" "timeFracDay (calc_SRV SE) = timeFracDay SE"
  "unixDays (calc_SRV SE) = unixDays SE" "JDN (calc_SRV SE) = JDN SE"
  "JCN (calc_SRV SE) = JCN SE" "GMLS (calc_SRV SE) = GMLS SE" "GMAS (calc_SRV SE) = GMAS SE"
  "EEO (calc_SRV SE) = EEO SE" "SEC (calc_SRV SE) = SEC SE" "STL (calc_SRV SE) = STL SE"
  "STA (calc_SRV SE) = STA SE" "HA (calc_SRV SE) = HA SE"
  by (simp_all add: calc_SRV_def Let_def)

lemma calc_SAL_frame [simp]:
  "tzOffset (calc_SAL SE) = tzOffset SE" "lat (calc_SAL SE) = lat SE"
  "lon (calc_SAL SE) = lon SE" "timeFracDay (calc_SAL SE) = timeFracDay SE"
  "unixDays (calc_SAL SE) = unixDays SE" "JDN (calc_SAL SE) = JDN SE"
  "JCN (calc_SAL SE) = JCN SE" "GMLS (calc_SAL SE) = GMLS SE" "GMAS (calc_SAL SE) = GMAS SE"
  "EEO (calc_SAL SE) = EEO SE" "SEC (calc_SAL SE) = SEC SE" "STL (calc_SAL SE) = STL SE"
  "STA (calc_SAL SE) = STA SE" "SRV (calc_SAL SE) = SRV SE" "HA (calc_SAL SE) = HA SE"
  by (simp_all add: calc_SAL_def Let_def)

lemma calc_MOE_frame [simp]:
  "tzOffset (calc_MOE SE) = tzOffset SE" "lat (calc_MOE SE) = lat SE"
  "lon (calc_MOE SE) = lon SE" "timeFracDay (calc_MOE SE) = timeFracDay SE"
  "unixDays (calc_MOE SE) = unixDays SE" "JDN (calc_MOE SE) = JDN SE"
  "JCN (calc_MOE SE) = JCN SE" "GMLS (calc_MOE SE) = GMLS SE" "GMAS (calc_MOE SE) = GMAS SE"
  "EEO (calc_MOE SE) = EEO SE" "SEC (calc_MOE SE) = SEC SE" "STL (calc_MOE SE) = STL SE"
  "STA (calc_MOE SE) = STA SE" "SRV (calc_MOE SE) = SRV SE" "SAL (calc_MOE SE) = SAL SE"
  "HA (calc_MOE SE) = HA SE"
  by (simp_all add: calc_MOE_def Let_def)

lemma calc_OC_frame [simp]:
  "tzOffset (calc_OC SE) = tzOffset SE" "lat (calc_OC SE) = lat SE" "lon (calc_OC SE) = lon SE"
  "timeFracDay (calc_OC SE) = timeFracDay SE" "unixDays (calc_OC SE) = unixDays SE"
  "JDN (calc_OC SE) = JDN SE" "JCN (calc_OC SE) = JCN SE" "GMLS (calc_OC SE) = GMLS SE"
  "GMAS (calc_OC SE) = GMAS SE" "EEO (calc_OC SE) = EEO SE" "SEC (calc_OC SE) = SEC SE"
  "STL (calc_OC SE) = STL SE" "STA (calc_OC SE) = STA SE" "SRV (calc_OC SE) = SRV SE"
  "SAL (calc_OC SE) = SAL SE" "MOE (calc_OC SE) = MOE SE" "HA (calc_OC SE) = HA SE"
  by (simp_all add: calc_OC_def Let_def)

lemma calc_SRA_frame [simp]:
  "tzOffset (calc_SRA SE) = tzOffset SE" "lat (calc_SRA SE) = lat SE"
  "lon (calc_SRA SE) = lon SE" "timeFracDay (calc_SRA SE) = timeFracDay SE"
  "unixDays (calc_SRA SE) = unixDays SE" "JDN (calc_SRA SE) = JDN SE"
  "JCN (calc_SRA SE) = JCN SE" "GMLS (calc_SRA SE) = GMLS SE" "GMAS (calc_SRA SE) = GMAS SE"
  "EEO (calc_SRA SE) = EEO SE" "SEC (calc_SRA SE) = SEC SE" "STL (calc_SRA SE) = STL SE"
  "STA (calc_SRA SE) = STA SE" "SRV (calc_SRA SE) = SRV SE" "SAL (calc_SRA SE) = SAL SE"
  "MOE (calc_SRA SE) = MOE SE" "OC (calc_SRA SE) = OC SE" "HA (calc_SRA SE) = HA SE"
  by (simp_all add: calc_SRA_def Let_def)

lemma calc_SDec_frame [simp]:
  "tzOffset (calc_SDec SE) = tzOffset SE" "lat (calc_SDec SE) = lat SE"
  "lon (calc_SDec SE) = lon SE" "timeFracDay (calc_SDec SE) = timeFracDay SE"
  "unixDays (calc_SDec SE) = unixDays SE" "JDN (calc_SDec SE) = JDN SE"
  "JCN (calc_SDec SE) = JCN SE" "GMLS (calc_SDec SE) = GMLS SE" "GMAS (calc_SDec SE) = GMAS SE"
  "EEO (calc_SDec SE) = EEO SE" "SEC (calc_SDec SE) = SEC SE" "STL (calc_SDec SE) = STL SE"
  "STA (calc_SDec SE) = STA SE" "SRV (calc_SDec SE) = SRV SE" "SAL (calc_SDec SE) = SAL SE"
  "MOE (calc_SDec SE) = MOE SE" "OC (calc_SDec SE) = OC SE" "SRA (calc_SDec SE) = SRA SE"
  "HA (calc_SDec SE) = HA SE"
  by (simp_all add: calc_SDec_def Let_def)

lemma calc_vy_frame [simp]:
  "tzOffset (calc_vy SE) = tzOffset SE" "lat (calc_vy SE) = lat SE" "lon (calc_vy SE) = lon SE"
  "timeFracDay (calc_vy SE) = timeFracDay SE" "unixDays (calc_vy SE) = unixDays SE"
  "JDN (calc_vy SE) = JDN SE" "JCN (calc_vy SE) = JCN SE" "GMLS (calc_vy SE) = GMLS SE"
  "GMAS (calc_vy SE) = GMAS SE" "EEO (calc_vy SE) = EEO SE" "SEC (calc_vy SE) = SEC SE"
  "STL (calc_vy SE) = STL SE" "STA (calc_vy SE) = STA SE" "SRV (calc_vy SE) = SRV SE"
  "SAL (calc_vy SE) = SAL SE" "MOE (calc_vy SE) = MOE SE" "OC (calc_vy SE) = OC SE"
  "SRA (calc_vy SE) = SRA SE" "SDec (calc_vy SE) = SDec SE" "HA (calc_vy SE) = HA SE"
  by (simp_all add: calc_vy_def Let_def)

lemma calc_EOT_frame [simp]:
  "tzOffset (calc_EOT SE) = tzOffset SE" "lat (calc_EOT SE) = lat SE"
  "lon (calc_EOT SE) = lon SE" "timeFracDay (calc_EOT SE) = timeFracDay SE"
  "unixDays (calc_EOT SE) = unixDays SE" "JDN (calc_EOT SE) = JDN SE"
  "JCN (calc_EOT SE) = JCN SE" "GMLS (calc_EOT SE) = GMLS SE" "GMAS (calc_EOT SE) = GMAS SE"
  "EEO (calc_EOT SE) = EEO SE" "SEC (calc_EOT SE) = SEC SE" "STL (calc_EOT SE) = STL SE"
  "STA (calc_EOT SE) = STA SE" "SRV (calc_EOT SE) = SRV SE" "SAL (calc_EOT SE) = SAL SE"
  "MOE (calc_EOT SE) = MOE SE" "OC (calc_EOT SE) = OC SE" "SRA (calc_EOT SE) = SRA SE"
  "SDec (calc_EOT SE) = SDec SE" "vy (calc_EOT SE) = vy SE" "HA (calc_EOT SE) = HA SE"
  by (simp_all add: calc_EOT_def Let_def)

lemma calc_HAS_frame [simp]:
  "tzOffset (calc_HAS SE) = tzOffset SE" "lat (calc_HAS SE) = lat SE"
  "lon (calc_HAS SE) = lon SE" "timeFracDay (calc_HAS SE) = timeFracDay SE"
  "unixDays (calc_HAS SE) = unixDays SE" "JDN (calc_HAS SE) = JDN SE"
  "JCN (calc_HAS SE) = JCN SE" "GMLS (calc_HAS SE) = GMLS SE" "GMAS (calc_HAS SE) = GMAS SE"
  "EEO (calc_HAS SE) = EEO SE" "SEC (calc_HAS SE) = SEC SE" "STL (calc_HAS SE) = STL SE"
  "STA (calc_HAS SE) = STA SE" "SRV (calc_HAS SE) = SRV SE" "SAL (calc_HAS SE) = SAL SE"
  "MOE (calc_HAS SE) = MOE SE" "OC (calc_HAS SE) = OC SE" "SRA (calc_HAS SE) = SRA SE"
  "SDec (calc_HAS SE) = SDec SE" "vy (calc_HAS SE) = vy SE" "EOT (calc_HAS SE) = EOT SE"
  "HA (calc_HAS SE) = HA SE"
  by (simp_all add: calc_HAS_def Let_def)

lemma calc_SolarNoonfrac_frame [simp]:
  "tzOffset (calc_SolarNoonfrac SE) = tzOffset SE" "lat (calc_SolarNoonfrac SE) = lat SE"
  "lon (calc_SolarNoonfrac SE) = lon SE" "timeFracDay (calc_SolarNoonfrac SE) = timeFracDay SE"
  "unixDays (calc_SolarNoonfrac SE) = unixDays SE" "JDN (calc_SolarNoonfrac SE) = JDN SE"
  "JCN (calc_SolarNoonfrac SE) = JCN SE" "GMLS (calc_SolarNoonfrac SE) = GMLS SE"
  "GMAS (calc_SolarNoonfrac SE) = GMAS SE" "EEO (calc_SolarNoonfrac SE) = EEO SE"
  "SEC (calc_SolarNoonfrac SE) = SEC SE" "STL (calc_SolarNoonfrac SE) = STL SE"
  "STA (calc_SolarNoonfrac SE) = STA SE" "SRV (calc_SolarNoonfrac SE) = SRV SE"
  "SAL (calc_SolarNoonfrac SE) = SAL SE" "MOE (calc_SolarNoonfrac SE) = MOE SE"
  "OC (calc_SolarNoonfrac SE) = OC SE" "SRA (calc_SolarNoonfrac SE) = SRA SE"
  "SDec (calc_SolarNoonfrac SE) = SDec SE" "vy (calc_SolarNoonfrac SE) = vy SE"
  "EOT (calc_SolarNoonfrac SE) = EOT SE" "HAS (calc_SolarNoonfrac SE) = HAS SE"
  "HA (calc_SolarNoonfrac SE) = HA SE"
  by (simp_all add: calc_SolarNoonfrac_def Let_def)

lemma calc_SolarNoonDays_frame [simp]:
  "tzOffset (calc_SolarNoonDays SE) = tzOffset SE" "lat (calc_SolarNoonDays SE) = lat SE"
  "lon (calc_SolarNoonDays SE) = lon SE" "timeFracDay (calc_SolarNoonDays SE) = timeFracDay SE"
  "unixDays (calc_SolarNoonDays SE) = unixDays SE" "JDN (calc_SolarNoonDays SE) = JDN SE"
  "JCN (calc_SolarNoonDays SE) = JCN SE" "GMLS (calc_SolarNoonDays SE) = GMLS SE"
  "GMAS (calc_SolarNoonDays SE) = GMAS SE" "EEO (calc_SolarNoonDays SE) = EEO SE"
  "SEC (calc_SolarNoonDays SE) = SEC SE" "STL (calc_SolarNoonDays SE) = STL SE"
  "STA (calc_SolarNoonDays SE) = STA SE" "SRV (calc_SolarNoonDays SE) = SRV SE"
  "SAL (calc_SolarNoonDays SE) = SAL SE" "MOE (calc_SolarNoonDays SE) = MOE SE"
  "OC (calc_SolarNoonDays SE) = OC SE" "SRA (calc_SolarNoonDays SE) = SRA SE"
  "SDec (calc_SolarNoonDays SE) = SDec SE" "vy (calc_SolarNoonDays SE) = vy SE"
  "EOT (calc_SolarNoonDays SE) = EOT SE" "HAS (calc_SolarNoonDays SE) = HAS SE"
  "SolarNoonfrac (calc_SolarNoonDays SE) = SolarNoonfrac SE"
  "HA (calc_SolarNoonDays SE) = HA SE"
  by (simp_all add: calc_SolarNoonDays_def Let_def)

lemma calc_SolarNoonTime_frame [simp]:
  "tzOffset (calc_SolarNoonTime u SE) = tzOffset SE" "lat (calc_SolarNoonTime u SE) = lat SE"
  "lon (calc_SolarNoonTime u SE) = lon SE"
  "timeFracDay (calc_SolarNoonTime u SE) = timeFracDay SE"
  "unixDays (calc_SolarNoonTime u SE) = unixDays SE" "JDN (calc_SolarNoonTime u SE) = JDN SE"
  "JCN (calc_SolarNoonTime u SE) = JCN SE" "GMLS (calc_SolarNoonTime u SE) = GMLS SE"
  "GMAS (calc_SolarNoonTime u SE) = GMAS SE" "EEO (calc_SolarNoonTime u SE) = EEO SE"
  "SEC (calc_SolarNoonTime u SE) = SEC SE" "STL (calc_SolarNoonTime u SE) = STL SE"
  "STA (calc_SolarNoonTime u SE) = STA SE" "SRV (calc_SolarNoonTime u SE) = SRV SE"
  "SAL (calc_SolarNoonTime u SE) = SAL SE" "MOE (calc_SolarNoonTime u SE) = MOE SE"
  "OC (calc_SolarNoonTime u SE) = OC SE" "SRA (calc_SolarNoonTime u SE) = SRA SE"
  "SDec (calc_SolarNoonTime u SE) = SDec SE" "vy (calc_SolarNoonTime u SE) = vy SE"
  "EOT (calc_SolarNoonTime u SE) = EOT SE" "HAS (calc_SolarNoonTime u SE) = HAS SE"
  "SolarNoonfrac (calc_SolarNoonTime u SE) = SolarNoonfrac SE"
  "SolarNoonDays (calc_SolarNoonTime u SE) = SolarNoonDays SE"
  "HA (calc_SolarNoonTime u SE) = HA SE"
  by (simp_all add: calc_SolarNoonTime_def Let_def)

lemma calc_Sunrise_frame [simp]:
  "tzOffset (calc_Sunrise SE) = tzOffset SE" "lat (calc_Sunrise SE) = lat SE"
  "lon (calc_Sunrise SE) = lon SE" "timeFracDay (calc_Sunrise SE) = timeFracDay SE"
  "unixDays (calc_Sunrise SE) = unixDays SE" "JDN (calc_Sunrise SE) = JDN SE"
  "JCN (calc_Sunrise SE) = JCN SE" "GMLS (calc_Sunrise SE) = GMLS SE"
  "GMAS (calc_Sunrise SE) = GMAS SE" "EEO (calc_Sunrise SE) = EEO SE"
  "SEC (calc_Sunrise SE) = SEC SE" "STL (calc_Sunrise SE) = STL SE"
  "STA (calc_Sunrise SE) = STA SE" "SRV (calc_Sunrise SE) = SRV SE"
  "SAL (calc_Sunrise SE) = SAL SE" "MOE (calc_Sunrise SE) = MOE SE"
  "OC (calc_Sunrise SE) = OC SE" "SRA (calc_Sunrise SE) = SRA SE"
  "SDec (calc_Sunrise SE) = SDec SE" "vy (calc_Sunrise SE) = vy SE"
  "EOT (calc_Sunrise SE) = EOT SE" "HAS (calc_Sunrise SE) = HAS SE"
  "SolarNoonfrac (calc_Sunrise SE) = SolarNoonfrac SE"
  "SolarNoonDays (calc_Sunrise SE) = SolarNoonDays SE"
  "SolarNoonTime (calc_Sunrise SE) = SolarNoonTime SE" "HA (calc_Sunrise SE) = HA SE"
  by (simp_all add: calc_Sunrise_def Let_def)

lemma calc_SunriseTime_frame [simp]:
  "tzOffset (calc_SunriseTime u SE) = tzOffset SE" "lat (calc_SunriseTime u SE) = lat SE"
  "lon (calc_SunriseTime u SE) = lon SE" "timeFracDay (calc_SunriseTime u SE) = timeFracDay SE"
  "unixDays (calc_SunriseTime u SE) = unixDays SE" "JDN (calc_SunriseTime u SE) = JDN SE"
  "JCN (calc_SunriseTime u SE) = JCN SE" "GMLS (calc_SunriseTime u SE) = GMLS SE"
  "GMAS (calc_SunriseTime u SE) = GMAS SE" "EEO (calc_SunriseTime u SE) = EEO SE"
  "SEC (calc_SunriseTime u SE) = SEC SE" "STL (calc_SunriseTime u SE) = STL SE"
  "STA (calc_SunriseTime u SE) = STA SE" "SRV (calc_SunriseTime u SE) = SRV SE"
  "SAL (calc_SunriseTime u SE) = SAL SE" "MOE (calc_SunriseTime u SE) = MOE SE"
  "OC (calc_SunriseTime u SE) = OC SE" "SRA (calc_SunriseTime u SE) = SRA SE"
  "SDec (calc_SunriseTime u SE) = SDec SE" "vy (calc_SunriseTime u SE) = vy SE"
  "EOT (calc_SunriseTime u SE) = EOT SE" "HAS (calc_SunriseTime u SE) = HAS SE"
  "SolarNoonfrac (calc_SunriseTime u SE) = SolarNoonfrac SE"
  "SolarNoonDays (calc_SunriseTime u SE) = SolarNoonDays SE"
  "SolarNoonTime (calc_SunriseTime u SE) = SolarNoonTime SE"
  "Sunrise (calc_SunriseTime u SE) = Sunrise SE" "HA (calc_SunriseTime u SE) = HA SE"
  by (simp_all add: calc_SunriseTime_def Let_def)

lemma calc_Sunset_frame [simp]:
  "tzOffset (calc_Sunset SE) = tzOffset SE" "lat (calc_Sunset SE) = lat SE"
  "lon (calc_Sunset SE) = lon SE" "timeFracDay (calc_Sunset SE) = timeFracDay SE"
  "unixDays (calc_Sunset SE) = unixDays SE" "JDN (calc_Sunset SE) = JDN SE"
  "JCN (calc_Sunset SE) = JCN SE" "GMLS (calc_Sunset SE) = GMLS SE"
  "GMAS (calc_Sunset SE) = GMAS SE" "EEO (calc_Sunset SE) = EEO SE"
  "SEC (calc_Sunset SE) = SEC SE" "STL (calc_Sunset SE) = STL SE"
  "STA (calc_Sunset SE) = STA SE" "SRV (calc_Sunset SE) = SRV SE"
  "SAL (calc_Sunset SE) = SAL SE" "MOE (calc_Sunset SE) = MOE SE" "OC (calc_Sunset SE) = OC SE"
  "SRA (calc_Sunset SE) = SRA SE" "SDec (calc_Sunset SE) = SDec SE"
  "vy (calc_Sunset SE) = vy SE" "EOT (calc_Sunset SE) = EOT SE" "HAS (calc_Sunset SE) = HAS SE"
  "SolarNoonfrac (calc_Sunset SE) = SolarNoonfrac SE"
  "SolarNoonDays (calc_Sunset SE) = SolarNoonDays SE"
  "SolarNoonTime (calc_Sunset SE) = SolarNoonTime SE" "Sunrise (calc_Sunset SE) = Sunrise SE"
  "SunriseTime (calc_Sunset SE) = SunriseTime SE" "HA (calc_Sunset SE) = HA SE"
  by (simp_all add: calc_Sunset_def Let_def)

lemma calc_SunsetTime_frame [simp]:
  "tzOffset (calc_SunsetTime u SE) = tzOffset SE" "lat (calc_SunsetTime u SE) = lat SE"
  "lon (calc_SunsetTime u SE) = lon SE" "timeFracDay (calc_SunsetTime u SE) = timeFracDay SE"
  "unixDays (calc_SunsetTime u SE) = unixDays SE" "JDN (calc_SunsetTime u SE) = JDN SE"
  "JCN (calc_SunsetTime u SE) = JCN SE" "GMLS (calc_SunsetTime u SE) = GMLS SE"
  "GMAS (calc_SunsetTime u SE) = GMAS SE" "EEO (calc_SunsetTime u SE) = EEO SE"
  "SEC (calc_SunsetTime u SE) = SEC SE" "STL (calc_SunsetTime u SE) = STL SE"
  "STA (calc_SunsetTime u SE) = STA SE" "SRV (calc_SunsetTime u SE) = SRV SE"
  "SAL (calc_SunsetTime u SE) = SAL SE" "MOE (calc_SunsetTime u SE) = MOE SE"
  "OC (calc_SunsetTime u SE) = OC SE" "SRA (calc_SunsetTime u SE) = SRA SE"
  "SDec (calc_SunsetTime u SE) = SDec SE" "vy (calc_SunsetTime u SE) = vy SE"
  "EOT (calc_SunsetTime u SE) = EOT SE" "HAS (calc_SunsetTime u SE) = HAS SE"
  "SolarNoonfrac (calc_SunsetTime u SE) = SolarNoonfrac SE"
  "SolarNoonDays (calc_SunsetTime u SE) = SolarNoonDays SE"
  "SolarNoonTime (calc_SunsetTime u SE) = SolarNoonTime SE"
  "Sunrise (calc_SunsetTime u SE) = Sunrise SE"
  "SunriseTime (calc_SunsetTime u SE) = SunriseTime SE"
  "Sunset (calc_SunsetTime u SE) = Sunset SE" "HA (calc_SunsetTime u SE) = HA SE"
  by (simp_all add: calc_SunsetTime_def Let_def)

lemma calc_SunDuration_frame [simp]:
  "tzOffset (calc_SunDuration SE) = tzOffset SE" "lat (calc_SunDuration SE) = lat SE"
  "lon (calc_SunDuration SE) = lon SE" "timeFracDay (calc_SunDuration SE) = timeFracDay SE"
  "unixDays (calc_SunDuration SE) = unixDays SE" "JDN (calc_SunDuration SE) = JDN SE"
  "JCN (calc_SunDuration SE) = JCN SE" "GMLS (calc_SunDuration SE) = GMLS SE"
  "GMAS (calc_SunDuration SE) = GMAS SE" "EEO (calc_SunDuration SE) = EEO SE"
  "SEC (calc_SunDuration SE) = SEC SE" "STL (calc_SunDuration SE) = STL SE"
  "STA (calc_SunDuration SE) = STA SE" "SRV (calc_SunDuration SE) = SRV SE"
  "SAL (calc_SunDuration SE) = SAL SE" "MOE (calc_SunDuration SE) = MOE SE"
  "OC (calc_SunDuration SE) = OC SE" "SRA (calc_SunDuration SE) = SRA SE"
  "SDec (calc_SunDuration SE) = SDec SE" "vy (calc_SunDuration SE) = vy SE"
  "EOT (calc_SunDuration SE) = EOT SE" "HAS (calc_SunDuration SE) = HAS SE"
  "SolarNoonfrac (calc_SunDuration SE) = SolarNoonfrac SE"
  "SolarNoonDays (calc_SunDuration SE) = SolarNoonDays SE"
  "SolarNoonTime (calc_SunDuration SE) = SolarNoonTime SE"
  "Sunrise (calc_SunDuration SE) = Sunrise SE"
  "SunriseTime (calc_SunDuration SE) = SunriseTime SE"
  "Sunset (calc_SunDuration SE) = Sunset SE" "SunsetTime (calc_SunDuration SE) = SunsetTime SE"
  "HA (calc_SunDuration SE) = HA SE"
  by (simp_all add: calc_SunDuration_def Let_def)

lemma calc_TST_frame [simp]:
  "tzOffset (calc_TST SE) = tzOffset SE" "lat (calc_TST SE) = lat SE"
  "lon (calc_TST SE) = lon SE" "timeFracDay (calc_TST SE) = timeFracDay SE"
  "unixDays (calc_TST SE) = unixDays SE" "JDN (calc_TST SE) = JDN SE"
  "JCN (calc_TST SE) = JCN SE" "GMLS (calc_TST SE) = GMLS SE" "GMAS (calc_TST SE) = GMAS SE"
  "EEO (calc_TST SE) = EEO SE" "SEC (calc_TST SE) = SEC SE" "STL (calc_TST SE) = STL SE"
  "STA (calc_TST SE) = STA SE" "SRV (calc_TST SE) = SRV SE" "SAL (calc_TST SE) = SAL SE"
  "MOE (calc_TST SE) = MOE SE" "OC (calc_TST SE) = OC SE" "SRA (calc_TST SE) = SRA SE"
  "SDec (calc_TST SE) = SDec SE" "vy (calc_TST SE) = vy SE" "EOT (calc_TST SE) = EOT SE"
  "HAS (calc_TST SE) = HAS SE" "SolarNoonfrac (calc_TST SE) = SolarNoonfrac SE"
  "SolarNoonDays (calc_TST SE) = SolarNoonDays SE"
  "SolarNoonTime (calc_TST SE) = SolarNoonTime SE" "Sunrise (calc_TST SE) = Sunrise SE"
  "SunriseTime (calc_TST SE) = SunriseTime SE" "Sunset (calc_TST SE) = Sunset SE"
  "SunsetTime (calc_TST SE) = SunsetTime SE" "SunDuration (calc_TST SE) = SunDuration SE"
  "HA (calc_TST SE) = HA SE"
  by (simp_all add: calc_TST_def Let_def)

lemma calc_HA_frame [simp]:
  "tzOffset (calc_HA SE) = tzOffset SE" "lat (calc_HA SE) = lat SE" "lon (calc_HA SE) = lon SE"
  "timeFracDay (calc_HA SE) = timeFracDay SE" "unixDays (calc_HA SE) = unixDays SE"
  "JDN (calc_HA SE) = JDN SE" "JCN (calc_HA SE) = JCN SE" "GMLS (calc_HA SE) = GMLS SE"
  "GMAS (calc_HA SE) = GMAS SE" "EEO (calc_HA SE) = EEO SE" "SEC (calc_HA SE) = SEC SE"
  "STL (calc_HA SE) = STL SE" "STA (calc_HA SE) = STA SE" "SRV (calc_HA SE) = SRV SE"
  "SAL (calc_HA SE) = SAL SE" "MOE (calc_HA SE) = MOE SE" "OC (calc_HA SE) = OC SE"
  "SRA (calc_HA SE) = SRA SE" "SDec (calc_HA SE) = SDec SE" "vy (calc_HA SE) = vy SE"
  "EOT (calc_HA SE) = EOT SE" "HAS (calc_HA SE) = HAS SE"
  "SolarNoonfrac (calc_HA SE) = SolarNoonfrac SE"
  "SolarNoonDays (calc_HA SE) = SolarNoonDays SE"
  "SolarNoonTime (calc_HA SE) = SolarNoonTime SE" "Sunrise (calc_HA SE) = Sunrise SE"
  "SunriseTime (calc_HA SE) = SunriseTime SE" "Sunset (calc_HA SE) = Sunset SE"
  "SunsetTime (calc_HA SE) = SunsetTime SE" "SunDuration (calc_HA SE) = SunDuration SE"
  "TST (calc_HA SE) = TST SE"
  by (simp_all add: calc_HA_def Let_def)

lemma calc_SZA_frame [simp]:
  "tzOffset (calc_SZA SE) = tzOffset SE" "lat (calc_SZA SE) = lat SE"
  "lon (calc_SZA SE) = lon SE" "timeFracDay (calc_SZA SE) = timeFracDay SE"
  "unixDays (calc_SZA SE) = unixDays SE" "JDN (calc_SZA SE) = JDN SE"
  "JCN (calc_SZA SE) = JCN SE" "GMLS (calc_SZA SE) = GMLS SE" "GMAS (calc_SZA SE) = GMAS SE"
  "EEO (calc_SZA SE) = EEO SE" "SEC (calc_SZA SE) = SEC SE" "STL (calc_SZA SE) = STL SE"
  "STA (calc_SZA SE) = STA SE" "SRV (calc_SZA SE) = SRV SE" "SAL (calc_SZA SE) = SAL SE"
  "MOE (calc_SZA SE) = MOE SE" "OC (calc_SZA SE) = OC SE" "SRA (calc_SZA SE) = SRA SE"
  "SDec (calc_SZA SE) = SDec SE" "vy (calc_SZA SE) = vy SE" "EOT (calc_SZA SE) = EOT SE"
  "HAS (calc_SZA SE) = HAS SE" "SolarNoonfrac (calc_SZA SE) = SolarNoonfrac SE"
  "SolarNoonDays (calc_SZA SE) = SolarNoonDays SE"
  "SolarNoonTime (calc_SZA SE) = SolarNoonTime SE" "Sunrise (calc_SZA SE) = Sunrise SE"
  "SunriseTime (calc_SZA SE) = SunriseTime SE" "Sunset (calc_SZA SE) = Sunset SE"
  "SunsetTime (calc_SZA SE) = SunsetTime SE" "SunDuration (calc_SZA SE) = SunDuration SE"
  "TST (calc_SZA SE) = TST SE" "HA (calc_SZA SE) = HA SE"
  by (simp_all add: calc_SZA_def Let_def)

lemma calc_SEA_frame [simp]:
  "tzOffset (calc_SEA SE) = tzOffset SE" "lat (calc_SEA SE) = lat SE"
  "lon (calc_SEA SE) = lon SE" "timeFracDay (calc_SEA SE) = timeFracDay SE"
  "unixDays (calc_SEA SE) = unixDays SE" "JDN (calc_SEA SE) = JDN SE"
  "JCN (calc_SEA SE) = JCN SE" "GMLS (calc_SEA SE) = GMLS SE" "GMAS (calc_SEA SE) = GMAS SE"
  "EEO (calc_SEA SE) = EEO SE" "SEC (calc_SEA SE) = SEC SE" "STL (calc_SEA SE) = STL SE"
  "STA (calc_SEA SE) = STA SE" "SRV (calc_SEA SE) = SRV SE" "SAL (calc_SEA SE) = SAL SE"
  "MOE (calc_SEA SE) = MOE SE" "OC (calc_SEA SE) = OC SE" "SRA (calc_SEA SE) = SRA SE"
  "SDec (calc_SEA SE) = SDec SE" "vy (calc_SEA SE) = vy SE" "EOT (calc_SEA SE) = EOT SE"
  "HAS (calc_SEA SE) = HAS SE" "SolarNoonfrac (calc_SEA SE) = SolarNoonfrac SE"
  "SolarNoonDays (calc_SEA SE) = SolarNoonDays SE"
  "SolarNoonTime (calc_SEA SE) = SolarNoonTime SE" "Sunrise (calc_SEA SE) = Sunrise SE"
  "SunriseTime (calc_SEA SE) = SunriseTime SE" "Sunset (calc_SEA SE) = Sunset SE"
  "SunsetTime (calc_SEA SE) = SunsetTime SE" "SunDuration (calc_SEA SE) = SunDuration SE"
  "TST (calc_SEA SE) = TST SE" "HA (calc_SEA SE) = HA SE" "SZA (calc_SEA SE) = SZA SE"
  by (simp_all add: calc_SEA_def Let_def)

lemma calc_AAR_frame [simp]:
  "tzOffset (calc_AAR SE) = tzOffset SE" "lat (calc_AAR SE) = lat SE"
  "lon (calc_AAR SE) = lon SE" "timeFracDay (calc_AAR SE) = timeFracDay SE"
  "unixDays (calc_AAR SE) = unixDays SE" "JDN (calc_AAR SE) = JDN SE"
  "JCN (calc_AAR SE) = JCN SE" "GMLS (calc_AAR SE) = GMLS SE" "GMAS (calc_AAR SE) = GMAS SE"
  "EEO (calc_AAR SE) = EEO SE" "SEC (calc_AAR SE) = SEC SE" "STL (calc_AAR SE) = STL SE"
  "STA (calc_AAR SE) = STA SE" "SRV (calc_AAR SE) = SRV SE" "SAL (calc_AAR SE) = SAL SE"
  "MOE (calc_AAR SE) = MOE SE" "OC (calc_AAR SE) = OC SE" "SRA (calc_AAR SE) = SRA SE"
  "SDec (calc_AAR SE) = SDec SE" "vy (calc_AAR SE) = vy SE" "EOT (calc_AAR SE) = EOT SE"
  "HAS (calc_AAR SE) = HAS SE" "SolarNoonfrac (calc_AAR SE) = SolarNoonfrac SE"
  "SolarNoonDays (calc_AAR SE) = SolarNoonDays SE"
  "SolarNoonTime (calc_AAR SE) = SolarNoonTime SE" "Sunrise (calc_AAR SE) = Sunrise SE"
  "SunriseTime (calc_AAR SE) = SunriseTime SE" "Sunset (calc_AAR SE) = Sunset SE"
  "SunsetTime (calc_AAR SE) = SunsetTime SE" "SunDuration (calc_AAR SE) = SunDuration SE"
  "TST (calc_AAR SE) = TST SE" "HA (calc_AAR SE) = HA SE" "SZA (calc_AAR SE) = SZA SE"
  "SEA (calc_AAR SE) = SEA SE"
  by (simp_all add: calc_AAR_def Let_def)

lemma calc_SEC_Corr_frame [simp]:
  "tzOffset (calc_SEC_Corr SE) = tzOffset SE" "lat (calc_SEC_Corr SE) = lat SE"
  "lon (calc_SEC_Corr SE) = lon SE" "timeFracDay (calc_SEC_Corr SE) = timeFracDay SE"
  "unixDays (calc_SEC_Corr SE) = unixDays SE" "JDN (calc_SEC_Corr SE) = JDN SE"
  "JCN (calc_SEC_Corr SE) = JCN SE" "GMLS (calc_SEC_Corr SE) = GMLS SE"
  "GMAS (calc_SEC_Corr SE) = GMAS SE" "EEO (calc_SEC_Corr SE) = EEO SE"
  "SEC (calc_SEC_Corr SE) = SEC SE" "STL (calc_SEC_Corr SE) = STL SE"
  "STA (calc_SEC_Corr SE) = STA SE" "SRV (calc_SEC_Corr SE) = SRV SE"
  "SAL (calc_SEC_Corr SE) = SAL SE" "MOE (calc_SEC_Corr SE) = MOE SE"
  "OC (calc_SEC_Corr SE) = OC SE" "SRA (calc_SEC_Corr SE) = SRA SE"
  "SDec (calc_SEC_Corr SE) = SDec SE" "vy (calc_SEC_Corr SE) = vy SE"
  "EOT (calc_SEC_Corr SE) = EOT SE" "HAS (calc_SEC_Corr SE) = HAS SE"
  "SolarNoonfrac (calc_SEC_Corr SE) = SolarNoonfrac SE"
  "SolarNoonDays (calc_SEC_Corr SE) = SolarNoonDays SE"
  "SolarNoonTime (calc_SEC_Corr SE) = SolarNoonTime SE"
  "Sunrise (calc_SEC_Corr SE) = Sunrise SE" "SunriseTime (calc_SEC_Corr SE) = SunriseTime SE"
  "Sunset (calc_SEC_Corr SE) = Sunset SE" "SunsetTime (calc_SEC_Corr SE) = SunsetTime SE"
  "SunDuration (calc_SEC_Corr SE) = SunDuration SE" "TST (calc_SEC_Corr SE) = TST SE"
  "HA (calc_SEC_Corr SE) = HA SE" "SZA (calc_SEC_Corr SE) = SZA SE"
  "SEA (calc_SEC_Corr SE) = SEA SE" "AAR (calc_SEC_Corr SE) = AAR SE"
  by (simp_all add: calc_SEC_Corr_def Let_def)

lemma calc_SAA_frame [simp]:
  "tzOffset (calc_SAA SE) = tzOffset SE" "lat (calc_SAA SE) = lat SE"
  "lon (calc_SAA SE) = lon SE" "timeFracDay (calc_SAA SE) = timeFracDay SE"
  "unixDays (calc_SAA SE) = unixDays SE" "JDN (calc_SAA SE) = JDN SE"
  "JCN (calc_SAA SE) = JCN SE" "GMLS (calc_SAA SE) = GMLS SE" "GMAS (calc_SAA SE) = GMAS SE"
  "EEO (calc_SAA SE) = EEO SE" "SEC (calc_SAA SE) = SEC SE" "STL (calc_SAA SE) = STL SE"
  "STA (calc_SAA SE) = STA SE" "SRV (calc_SAA SE) = SRV SE" "SAL (calc_SAA SE) = SAL SE"
  "MOE (calc_SAA SE) = MOE SE" "OC (calc_SAA SE) = OC SE" "SRA (calc_SAA SE) = SRA SE"
  "SDec (calc_SAA SE) = SDec SE" "vy (calc_SAA SE) = vy SE" "EOT (calc_SAA SE) = EOT SE"
  "HAS (calc_SAA SE) = HAS SE" "SolarNoonfrac (calc_SAA SE) = SolarNoonfrac SE"
  "SolarNoonDays (calc_SAA SE) = SolarNoonDays SE"
  "SolarNoonTime (calc_SAA SE) = SolarNoonTime SE" "Sunrise (calc_SAA SE) = Sunrise SE"
  "SunriseTime (calc_SAA SE) = SunriseTime SE" "Sunset (calc_SAA SE) = Sunset SE"
  "SunsetTime (calc_SAA SE) = SunsetTime SE" "SunDuration (calc_SAA SE) = SunDuration SE"
  "TST (calc_SAA SE) = TST SE" "HA (calc_SAA SE) = HA SE" "SZA (calc_SAA SE) = SZA SE"
  "SEA (calc_SAA SE) = SEA SE" "AAR (calc_SAA SE) = AAR SE"
  "SEC_Corr (calc_SAA SE) = SEC_Corr SE"
  by (simp_all add: calc_SAA_def Let_def)

section \<open>The result of \<^verbatim>\<open>calcSolar\<close>, field by field\<close>

text \<open>
  \<^verbatim>\<open>calcSolar\<close> keeps the configuration, and each field of its result is the value
  of its block at the fields of the result that the block reads.
\<close>

lemma calcSolar_config [simp]:
  "tzOffset (calcSolar u t SE) = tzOffset SE"
  "lat (calcSolar u t SE) = lat SE"
  "lon (calcSolar u t SE) = lon SE"
  by (simp_all add: calcSolar_def Let_def)

lemma calcSolar_timeFracDay:
  "timeFracDay (calcSolar u t SE) =
     ((double_of_int (c_div (second t) 60) + double_of_int (minute t)) / 60
       + double_of_int (hour t)) / 24"
  by (simp add: calcSolar_def Let_def calc_timeFracDay_def)

lemma calcSolar_unixDays:
  "unixDays (calcSolar u t SE) =
     c_div t 86400"
  by (simp add: calcSolar_def Let_def calc_unixDays_def)

lemma calcSolar_JDN:
  "JDN (calcSolar u t SE) =
     julianUnixEpoch + double_of_int (unixDays (calcSolar u t SE)) + timeFracDay (calcSolar u t SE)
       - double_of_int (tzOffset SE) / 24"
  by (simp add: calcSolar_def Let_def calc_JDN_def)

lemma calcSolar_JCN:
  "JCN (calcSolar u t SE) =
     (JDN (calcSolar u t SE) - 2451545) / 36525"
  by (simp add: calcSolar_def Let_def calc_JCN_def)

lemma calcSolar_GMLS:
  "GMLS (calcSolar u t SE) =
     (let g = 280.46646 + JCN (calcSolar u t SE) * (36000.76983 + JCN (calcSolar u t SE) * 0.0003032)
      in g - 360 * floor_d (g / 360))"
  by (simp add: calcSolar_def Let_def calc_GMLS_def)

lemma calcSolar_GMAS:
  "GMAS (calcSolar u t SE) =
     357.52911 + JCN (calcSolar u t SE) * (35999.05029 - 0.0001537 * JCN (calcSolar u t SE))"
  by (simp add: calcSolar_def Let_def calc_GMAS_def)

lemma calcSolar_EEO:
  "EEO (calcSolar u t SE) =
     0.016708634 - JCN (calcSolar u t SE) * (0.000042037 + 0.0000001267 * JCN (calcSolar u t SE))"
  by (simp add: calcSolar_def Let_def calc_EEO_def)

lemma calcSolar_SEC:
  "SEC (calcSolar u t SE) =
     sin_d (GMAS (calcSolar u t SE) * DEG_TO_RAD) * (1.914602 - JCN (calcSolar u t SE) * (0.004817 + 0.000014 * JCN (calcSolar u t SE)))
     + sin_d (2 * GMAS (calcSolar u t SE) * DEG_TO_RAD) * (0.019993 - 0.000101 * JCN (calcSolar u t SE))
     + sin_d (3 * GMAS (calcSolar u t SE) * DEG_TO_RAD) * 0.000289"
  by (simp add: calcSolar_def Let_def calc_SEC_def)

lemma calcSolar_STL:
  "STL (calcSolar u t SE) =
     GMLS (calcSolar u t SE) + SEC (calcSolar u t SE)"
  by (simp add: calcSolar_def Let_def calc_STL_def)

lemma calcSolar_STA:
  "STA (calcSolar u t SE) =
     GMAS (calcSolar u t SE) + SEC (calcSolar u t SE)"
  by (simp add: calcSolar_def Let_def calc_STA_def)


lemma calcSolar_SAL:
  "SAL (calcSolar u t SE) =
     STL (calcSolar u t SE) - 0.00569 - 0.00478 * sin_d ((125.04 - 1934.136 * JCN (calcSolar u t SE)) * DEG_TO_RAD)"
  by (simp add: calcSolar_def Let_def calc_SAL_def)

lemma calcSolar_MOE:
  "MOE (calcSolar u t SE) =
     23 + (26 + (21.448 - JCN (calcSolar u t SE) * (46.815 + JCN (calcSolar u t SE) * (0.00059 - JCN (calcSolar u t SE) * 0.001813))) / 60) / 60"
  by (simp add: calcSolar_def Let_def calc_MOE_def)

lemma calcSolar_OC:
  "OC (calcSolar u t SE) =
     MOE (calcSolar u t SE) + 0.00256 * cos_d ((125.04 - 1934.136 * JCN (calcSolar u t SE)) * DEG_TO_RAD)"
  by (simp add: calcSolar_def Let_def calc_OC_def)


lemma calcSolar_SDec:
  "SDec (calcSolar u t SE) =
     asin_d (sin_d (OC (calcSolar u t SE) * DEG_TO_RAD) * sin_d (SAL (calcSolar u t SE) * DEG_TO_RAD)) * RAD_TO_DEG"
  by (simp add: calcSolar_def Let_def calc_SDec_def)

lemma calcSolar_vy:
  "vy (calcSolar u t SE) =
     tan_d (OC (calcSolar u t SE) / 2 * DEG_TO_RAD) * tan_d (OC (calcSolar u t SE) / 2 * DEG_TO_RAD)"
  by (simp add: calcSolar_def Let_def calc_vy_def)

lemma calcSolar_EOT:
  "EOT (calcSolar u t SE) =
     4 * ((vy (calcSolar u t SE) * sin_d (2 * (GMLS (calcSolar u t SE) * DEG_TO_RAD))
           - 2 * EEO (calcSolar u t SE) * sin_d (GMAS (calcSolar u t SE) * DEG_TO_RAD)
           + 4 * EEO (calcSolar u t SE) * vy (calcSolar u t SE) * sin_d (GMAS (calcSolar u t SE) * DEG_TO_RAD) * cos_d (2 * (GMLS (calcSolar u t SE) * DEG_TO_RAD))
           - 0.5 * vy (calcSolar u t SE) * vy (calcSolar u t SE) * sin_d (4 * (GMLS (calcSolar u t SE) * DEG_TO_RAD))
           - 1.25 * EEO (calcSolar u t SE) * EEO (calcSolar u t SE) * sin_d (2 * (GMAS (calcSolar u t SE) * DEG_TO_RAD)))
          * RAD_TO_DEG)"
  by (simp add: calcSolar_def Let_def calc_EOT_def)

lemma calcSolar_HAS:
  "HAS (calcSolar u t SE) =
     acos_d (cos_d (90.833 * DEG_TO_RAD)
               / (cos_d (lat SE * DEG_TO_RAD) * cos_d (SDec (calcSolar u t SE) * DEG_TO_RAD))
             - tan_d (lat SE * DEG_TO_RAD) * tan_d (SDec (calcSolar u t SE) * DEG_TO_RAD))
      * RAD_TO_DEG"
  by (simp add: calcSolar_def Let_def calc_HAS_def)

lemma calcSolar_SolarNoonfrac:
  "SolarNoonfrac (calcSolar u t SE) =
     (720 - 4 * lon SE - EOT (calcSolar u t SE)) / 1440"
  by (simp add: calcSolar_def Let_def calc_SolarNoonfrac_def)

lemma calcSolar_SolarNoonDays:
  "SolarNoonDays (calcSolar u t SE) =
     double_of_int (unixDays (calcSolar u t SE)) + SolarNoonfrac (calcSolar u t SE) + double_of_int (tzOffset SE) / 24"
  by (simp add: calcSolar_def Let_def calc_SolarNoonDays_def)

lemma calcSolar_SolarNoonTime:
  "SolarNoonTime (calcSolar u t SE) =
     time_t_of_double u (SolarNoonDays (calcSolar u t SE) * 86400)"
  by (simp add: calcSolar_def Let_def calc_SolarNoonTime_def)

lemma calcSolar_Sunrise:
  "Sunrise (calcSolar u t SE) =
     (double_of_int (unixDays (calcSolar u t SE)) + (SolarNoonfrac (calcSolar u t SE) - HAS (calcSolar u t SE) * 4 / 1440)
       + double_of_int (tzOffset SE) / 24) * 86400"
  by (simp add: calcSolar_def Let_def calc_Sunrise_def)


lemma calcSolar_Sunset:
  "Sunset (calcSolar u t SE) =
     (double_of_int (unixDays (calcSolar u t SE)) + (SolarNoonfrac (calcSolar u t SE) + HAS (calcSolar u t SE) * 4 / 1440)
       + double_of_int (tzOffset SE) / 24) * 86400"
  by (simp add: calcSolar_def Let_def calc_Sunset_def)


lemma calcSolar_SunDuration:
  "SunDuration (calcSolar u t SE) =
     8 * HAS (calcSolar u t SE)"
  by (simp add: calcSolar_def Let_def calc_SunDuration_def)

lemma calcSolar_TST:
  "TST (calcSolar u t SE) =
     (let x = timeFracDay (calcSolar u t SE) * 1440 + EOT (calcSolar u t SE) + 4 * lon SE - double_of_int (60 * tzOffset SE)
      in x - 1440 * floor_d (x / 1440))"
  by (simp add: calcSolar_def Let_def calc_TST_def)

lemma calcSolar_HA:
  "HA (calcSolar u t SE) =
     (if TST (calcSolar u t SE) / 4 < 0 then TST (calcSolar u t SE) / 4 + 180
      else if TST (calcSolar u t SE) / 4 \<ge> 0 then TST (calcSolar u t SE) / 4 - 180
      else HA SE)"
  by (simp add: calcSolar_def Let_def calc_HA_def)

lemma calcSolar_SZA:
  "SZA (calcSolar u t SE) =
     acos_d (sin_d (lat SE * DEG_TO_RAD) * sin_d (SDec (calcSolar u t SE) * DEG_TO_RAD)
             + cos_d (lat SE * DEG_TO_RAD) * cos_d (SDec (calcSolar u t SE) * DEG_TO_RAD) * cos_d (HA (calcSolar u t SE) * DEG_TO_RAD))
      * RAD_TO_DEG"
  by (simp add: calcSolar_def Let_def calc_SZA_def)

lemma calcSolar_SEA:
  "SEA (calcSolar u t SE) =
     90 - SZA (calcSolar u t SE)"
  by (simp add: calcSolar_def Let_def calc_SEA_def)

lemma calcSolar_AAR:
  "AAR (calcSolar u t SE) =
     (if SEA (calcSolar u t SE) > 85 then 0
      else if SEA (calcSolar u t SE) > 5 then
        58.1 / tan_d (SEA (calcSolar u t SE) * DEG_TO_RAD)
        - 0.07 / pow_d (tan_d (SEA (calcSolar u t SE) * DEG_TO_RAD)) 3
        + 0.000086 / pow_d (tan_d (SEA (calcSolar u t SE) * DEG_TO_RAD)) 5
      else if SEA (calcSolar u t SE) > - 0.575 then
        1735 + SEA (calcSolar u t SE) * (- 581.2 * SEA (calcSolar u t SE) * (103.4 + SEA (calcSolar u t SE) * (- 12.79 + SEA (calcSolar u t SE) * 0.711)))
      else - 20.772 / tan_d (SEA (calcSolar u t SE) * DEG_TO_RAD)) / 3600"
  by (simp add: calcSolar_def Let_def calc_AAR_def)

lemma calcSolar_SEC_Corr:
  "SEC_Corr (calcSolar u t SE) =
     SEA (calcSolar u t SE) + AAR (calcSolar u t SE)"
  by (simp add: calcSolar_def Let_def calc_SEC_Corr_def)

lemma calcSolar_SAA:
  "SAA (calcSolar u t SE) =
     (let a = acos_d ((sin_d (lat SE * DEG_TO_RAD) * cos_d (SZA (calcSolar u t SE) * DEG_TO_RAD)
                        - sin_d (SDec (calcSolar u t SE) * DEG_TO_RAD))
                       / (cos_d (lat SE * DEG_TO_RAD) * sin_d (SZA (calcSolar u t SE) * DEG_TO_RAD))) * RAD_TO_DEG;
          x = (if HA (calcSolar u t SE) > 0 then a + 180 else 540 - a)
      in x - 360 * floor_d (x / 360))"
  by (simp add: calcSolar_def Let_def calc_SAA_def)

section \<open>Integer division and the time of day\<close>

lemma c_div_small: "0 \<le> a \<Longrightarrow> a < b \<Longrightarrow> c_div a b = 0"
  by (simp add: c_div_def)

lemma c_div_nonneg: "0 \<le> a \<Longrightarrow> 0 < b \<Longrightarrow> c_div a b = a div b"
  by (cases "a = 0") (simp_all add: c_div_def)

lemma c_div_neg: "a < 0 \<Longrightarrow> 0 < b \<Longrightarrow> c_div a b = - ((- a) div b)"
  by (simp add: c_div_def)

text \<open>The seconds are below 60, so their integer quotient by 60 is 0 at every time.\<close>

lemma second_div_60: "c_div (second t) 60 = 0"
  by (rule c_div_small) (simp_all add: second_def)

lemma timeFracDay_code:
  "timeFracDay (calcSolar u t SE) = Fin ((real_of_int (minute t) / 60 + real_of_int (hour t)) / 24)"
  by (simp add: calcSolar_timeFracDay second_div_60 double_of_int_def)

lemma fold_calcSolar_config:
  "tzOffset (fold (calcSolar u) ts SE) = tzOffset SE"
  "lat (fold (calcSolar u) ts SE) = lat SE"
  "lon (fold (calcSolar u) ts SE) = lon SE"
  by (induction ts arbitrary: SE) simp_all

section \<open>Bounds on the trigonometric functions\<close>

lemma pi_ge_3: "3 \<le> pi"
proof -
  have "sin (pi / 6) \<le> pi / 6"
    by (rule sin_x_le_x) simp
  then show ?thesis
    by (simp add: sin_30)
qed

lemma sqrt2_bounds: "1.41 \<le> sqrt 2" "sqrt 2 \<le> 1.415"
  by (rule real_le_rsqrt, simp add: power2_eq_square) (rule real_le_lsqrt, simp_all add: power2_eq_square)

lemma sqrt3_bounds: "1.73 \<le> sqrt 3" "sqrt 3 \<le> 1.733"
  by (rule real_le_rsqrt, simp add: power2_eq_square) (rule real_le_lsqrt, simp_all add: power2_eq_square)

lemma cos_ge_1_minus_half_sq: "1 - x\<^sup>2 / 2 \<le> cos (x::real)"
proof -
  have "\<bar>sin (x / 2)\<bar> \<le> \<bar>x / 2\<bar>"
    by (rule abs_sin_x_le_abs_x)
  then have "(sin (x / 2))\<^sup>2 \<le> (x / 2)\<^sup>2"
    by (simp only: abs_le_square_iff)
  moreover have "cos x = 1 - 2 * (sin (x / 2))\<^sup>2"
    using cos_double_sin [of "x / 2"] by simp
  ultimately show ?thesis
    by (simp add: power2_eq_square)
qed

lemma sin_pi_8_ge: "0.38 \<le> sin (pi / 8)"
proof -
  have c: "cos (pi / 4) = 1 - 2 * (sin (pi / 8))\<^sup>2"
    using cos_double_sin [of "pi / 8"] by simp
  have "(0.38::real)\<^sup>2 \<le> (sin (pi / 8))\<^sup>2"
    using c sqrt2_bounds(2) by (simp add: cos_45 power2_eq_square)
  moreover have "0 \<le> sin (pi / 8)"
    by (rule sin_ge_zero) simp_all
  ultimately show ?thesis
    by (simp add: power2_le_iff_abs_le)
qed

lemma deg75: "75 * (pi / 180) = pi / 4 + pi / 6"
  by simp

lemma cos_75: "cos (75 * (pi / 180)) = sqrt 2 * (sqrt 3 - 1) / 4"
proof -
  have "cos (75 * (pi / 180)) = cos (pi / 4 + pi / 6)"
    by (simp only: deg75)
  also have "\<dots> = cos (pi / 4) * cos (pi / 6) - sin (pi / 4) * sin (pi / 6)"
    by (rule cos_add)
  also have "\<dots> = sqrt 2 * (sqrt 3 - 1) / 4"
    by (simp add: cos_45 sin_45 cos_30 sin_30 field_simps)
  finally show ?thesis .
qed

lemma sin_75: "sin (75 * (pi / 180)) = sqrt 2 * (sqrt 3 + 1) / 4"
proof -
  have "sin (75 * (pi / 180)) = sin (pi / 4 + pi / 6)"
    by (simp only: deg75)
  also have "\<dots> = sin (pi / 4) * cos (pi / 6) + cos (pi / 4) * sin (pi / 6)"
    by (rule sin_add)
  also have "\<dots> = sqrt 2 * (sqrt 3 + 1) / 4"
    by (simp add: cos_45 sin_45 cos_30 sin_30 field_simps)
  finally show ?thesis .
qed

lemma cos_75_bounds: "0.25 \<le> cos (75 * (pi / 180))" "cos (75 * (pi / 180)) \<le> 0.26"
proof -
  have "1.41 * 0.73 \<le> sqrt 2 * (sqrt 3 - 1)"
    using sqrt2_bounds sqrt3_bounds by (intro mult_mono) simp_all
  then show "0.25 \<le> cos (75 * (pi / 180))"
    unfolding cos_75 by simp
  have "sqrt 2 * (sqrt 3 - 1) \<le> 1.415 * 0.733"
    using sqrt2_bounds sqrt3_bounds by (intro mult_mono) simp_all
  then show "cos (75 * (pi / 180)) \<le> 0.26"
    unfolding cos_75 by simp
qed

lemma sin_75_bounds: "0.96 \<le> sin (75 * (pi / 180))"
proof -
  have "1.41 * 2.73 \<le> sqrt 2 * (sqrt 3 + 1)"
    using sqrt2_bounds sqrt3_bounds by (intro mult_mono) simp_all
  then show ?thesis
    unfolding sin_75 by simp
qed

lemma tan_75_ge: "3.69 \<le> tan (75 * (pi / 180))"
proof -
  let ?c = "cos (75 * (pi / 180))" and ?s = "sin (75 * (pi / 180))"
  have "3.69 * ?c \<le> 3.69 * 0.26"
    using cos_75_bounds(2) by simp
  also have "\<dots> \<le> ?s"
    using sin_75_bounds by simp
  finally have "3.69 * ?c \<le> ?s" .
  moreover have "0 < ?c"
    using cos_75_bounds(1) by simp
  ultimately show ?thesis
    unfolding tan_def by (simp add: pos_le_divide_eq)
qed

text \<open>
  The spherical triangle of the pole, the zenith and the sun: the cosine of the zenith
  angle and the cosine of the azimuth are cosines, whatever the three angles are.
\<close>

lemma spherical_sq:
  fixes a d h :: real
  defines "x \<equiv> sin a * sin d + cos a * cos d * cos h"
    and "w \<equiv> sin a * cos d * cos h - cos a * sin d"
  shows "x\<^sup>2 + w\<^sup>2 = (cos d)\<^sup>2 * (cos h)\<^sup>2 + (sin d)\<^sup>2"
proof -
  have "x\<^sup>2 + w\<^sup>2 = ((sin a)\<^sup>2 + (cos a)\<^sup>2) * ((cos d)\<^sup>2 * (cos h)\<^sup>2 + (sin d)\<^sup>2)"
    unfolding x_def w_def by algebra
  then show ?thesis by simp
qed

lemma spherical_le_1:
  fixes a d h :: real
  defines "x \<equiv> sin a * sin d + cos a * cos d * cos h"
    and "w \<equiv> sin a * cos d * cos h - cos a * sin d"
  shows "x\<^sup>2 + w\<^sup>2 \<le> 1"
proof -
  have "(cos d)\<^sup>2 * (cos h)\<^sup>2 \<le> (cos d)\<^sup>2 * 1"
    by (intro mult_left_mono) (simp_all add: abs_square_le_1)
  then have "(cos d)\<^sup>2 * (cos h)\<^sup>2 + (sin d)\<^sup>2 \<le> 1"
    using sin_cos_squared_add2 [of d] by linarith
  then show ?thesis
    unfolding x_def w_def using spherical_sq [of a d h] by simp
qed

lemma zenith_arg_bounds:
  fixes a d h :: real
  shows "- 1 \<le> sin a * sin d + cos a * cos d * cos h"
    and "sin a * sin d + cos a * cos d * cos h \<le> 1"
proof -
  let ?x = "sin a * sin d + cos a * cos d * cos h"
  let ?w = "sin a * cos d * cos h - cos a * sin d"
  have "?x\<^sup>2 \<le> ?x\<^sup>2 + ?w\<^sup>2" by simp
  also have "\<dots> \<le> 1" by (rule spherical_le_1)
  finally have "\<bar>?x\<bar> \<le> 1" by (simp add: abs_square_le_1)
  then show "- 1 \<le> ?x" "?x \<le> 1" by linarith+
qed

lemma azimuth_arg_bounds:
  fixes a d h :: real
  defines "x \<equiv> sin a * sin d + cos a * cos d * cos h"
  assumes ca: "0 < cos a" and x1: "\<bar>x\<bar> < 1"
  shows "\<bar>(sin a * x - sin d) / (cos a * sqrt (1 - x\<^sup>2))\<bar> \<le> 1"
proof -
  define w where "w = sin a * cos d * cos h - cos a * sin d"
  have xw: "x\<^sup>2 + w\<^sup>2 \<le> 1"
    unfolding x_def w_def by (rule spherical_le_1)
  have "(sin a)\<^sup>2 = 1 - (cos a)\<^sup>2" by (rule sin_squared_eq)
  then have eq: "sin a * x - sin d = cos a * w"
    unfolding x_def w_def by algebra
  have "x\<^sup>2 < 1" using x1 by (simp add: abs_square_less_1)
  then have pos: "0 < sqrt (1 - x\<^sup>2)" by simp
  have "\<bar>w\<bar>\<^sup>2 \<le> 1 - x\<^sup>2" using xw by simp
  then have "\<bar>w\<bar> \<le> sqrt (1 - x\<^sup>2)"
    by (rule real_le_rsqrt)
  then show ?thesis
    using ca pos by (simp add: eq abs_mult)
qed

section \<open>Values and bounds of the fields up to the equation of time\<close>

lemma abs_mult_le1: "\<bar>j\<bar> \<le> 1 \<Longrightarrow> \<bar>p\<bar> \<le> P \<Longrightarrow> \<bar>j * p\<bar> \<le> (P::real)"
proof -
  assume a: "\<bar>j\<bar> \<le> 1" "\<bar>p\<bar> \<le> P"
  have "\<bar>j * p\<bar> = \<bar>j\<bar> * \<bar>p\<bar>" by (rule abs_mult)
  also have "\<dots> \<le> 1 * P" using a by (intro mult_mono) simp_all
  finally show ?thesis by simp
qed

lemma abs_sum_le: "\<bar>b\<bar> \<le> B \<Longrightarrow> \<bar>a\<bar> + B \<le> C \<Longrightarrow> \<bar>a + b\<bar> \<le> (C::real)"
  by linarith

lemma abs_diff_le: "\<bar>b\<bar> \<le> B \<Longrightarrow> \<bar>a\<bar> + B \<le> C \<Longrightarrow> \<bar>a - b\<bar> \<le> (C::real)"
  by linarith

lemma calcSolar_JCN_value:
  "JCN (calcSolar u t SE) =
     Fin ((2440587.5 + real_of_int (c_div t 86400)
            + (real_of_int (minute t) / 60 + real_of_int (hour t)) / 24
            - real_of_int (tzOffset SE) / 24 - 2451545) / 36525)"
  by (simp add: calcSolar_JCN calcSolar_JDN calcSolar_unixDays timeFracDay_code
      julianUnixEpoch_def double_of_int_def)

lemma EEO_bounds:
  assumes "JCN (calcSolar u t SE) = Fin j" "\<bar>j\<bar> \<le> 1"
  shows "\<exists>e. EEO (calcSolar u t SE) = Fin e \<and> 0.0166 \<le> e \<and> e \<le> 0.0168"
proof -
  define p where "p = j * (0.000042037 + 0.0000001267 * j)"
  have "\<bar>0.0000001267 * j\<bar> \<le> 0.0000001267"
    using assms(2) by simp
  then have "\<bar>0.000042037 + 0.0000001267 * j\<bar> \<le> 0.0000422"
    by (rule abs_sum_le) simp_all
  then have "\<bar>p\<bar> \<le> 0.0000422"
    unfolding p_def using assms(2) by (rule abs_mult_le1[rotated])
  moreover have "EEO (calcSolar u t SE) = Fin (0.016708634 - p)"
    unfolding p_def using assms(1) by (simp add: calcSolar_EEO)
  ultimately show ?thesis by auto
qed

lemma OC_bounds:
  assumes "JCN (calcSolar u t SE) = Fin j" "\<bar>j\<bar> \<le> 1"
  shows "\<exists>oc. OC (calcSolar u t SE) = Fin oc \<and> 23.42 \<le> oc \<and> oc \<le> 23.46"
proof -
  define p1 where "p1 = j * 0.001813"
  define p2 where "p2 = j * (0.00059 - p1)"
  define p3 where "p3 = j * (46.815 + p2)"
  define mo where "mo = 23 + (26 + (21.448 - p3) / 60) / 60"
  define k where "k = cos ((125.04 - 1934.136 * j) * (pi / 180))"
  have "\<bar>p1\<bar> \<le> 0.001813"
    unfolding p1_def using assms(2) by simp
  then have "\<bar>0.00059 - p1\<bar> \<le> 0.0025"
    by (rule abs_diff_le) simp_all
  then have "\<bar>p2\<bar> \<le> 0.0025"
    unfolding p2_def using assms(2) by (rule abs_mult_le1[rotated])
  then have "\<bar>46.815 + p2\<bar> \<le> 46.82"
    by (rule abs_sum_le) simp_all
  then have "\<bar>p3\<bar> \<le> 46.82"
    unfolding p3_def using assms(2) by (rule abs_mult_le1[rotated])
  then have "- 46.82 \<le> p3 \<and> p3 \<le> 46.82"
    unfolding abs_le_iff by simp
  then have mo: "23.426 \<le> mo" "mo \<le> 23.453"
    unfolding mo_def by (simp_all add: field_simps)
  have k: "- 1 \<le> k" "k \<le> 1"
    unfolding k_def by simp_all
  have "MOE (calcSolar u t SE) = Fin mo"
    unfolding mo_def p3_def p2_def p1_def using assms(1) by (simp add: calcSolar_MOE)
  then have "OC (calcSolar u t SE) = Fin (mo + 0.00256 * k)"
    unfolding k_def using assms(1) by (simp add: calcSolar_OC DEG_TO_RAD_def)
  moreover have "23.42 \<le> mo + 0.00256 * k" "mo + 0.00256 * k \<le> 23.46"
    using mo k by simp_all
  ultimately show ?thesis by blast
qed

lemma floor_mod_range:
  fixes x n :: real
  assumes "0 < n"
  shows "0 \<le> x - n * of_int \<lfloor>x / n\<rfloor>" "x - n * of_int \<lfloor>x / n\<rfloor> < n"
proof -
  have "n * of_int \<lfloor>x / n\<rfloor> \<le> n * (x / n)"
    using assms by (intro mult_left_mono) simp_all
  then show "0 \<le> x - n * of_int \<lfloor>x / n\<rfloor>"
    using assms by simp
  have "n * (x / n) < n * (of_int \<lfloor>x / n\<rfloor> + 1)"
    using assms by (intro mult_strict_left_mono) linarith+
  then show "x - n * of_int \<lfloor>x / n\<rfloor> < n"
    using assms by (simp add: algebra_simps)
qed

lemma GMLS_value:
  assumes "JCN (calcSolar u t SE) = Fin j"
  shows "GMLS (calcSolar u t SE) =
           Fin (280.46646 + j * (36000.76983 + j * 0.0003032)
                - 360 * of_int \<lfloor>(280.46646 + j * (36000.76983 + j * 0.0003032)) / 360\<rfloor>)"
  using assms by (simp add: calcSolar_GMLS Let_def)


lemma abs_prod_le: "\<bar>a\<bar> \<le> A \<Longrightarrow> \<bar>b\<bar> \<le> B \<Longrightarrow> \<bar>a * b\<bar> \<le> A * (B::real)"
  unfolding abs_mult by (intro mult_mono) (auto intro: order_trans [OF abs_ge_zero])

lemma SAL_bounds:
  assumes "JCN (calcSolar u t SE) = Fin j" "\<bar>j\<bar> \<le> 1" "GMLS (calcSolar u t SE) = Fin g"
  shows "\<exists>m c sal. GMAS (calcSolar u t SE) = Fin m \<and> SEC (calcSolar u t SE) = Fin c \<and>
           STL (calcSolar u t SE) = Fin (g + c) \<and> STA (calcSolar u t SE) = Fin (m + c) \<and>
           SAL (calcSolar u t SE) = Fin sal \<and> \<bar>sal - g\<bar> \<le> 1.97"
proof -
  define m where "m = 357.52911 + j * (35999.05029 - 0.0001537 * j)"
  define A where "A = 1.914602 - j * (0.004817 + 0.000014 * j)"
  define B where "B = 0.019993 - 0.000101 * j"
  define c where "c = sin (m * (pi / 180)) * A + sin (2 * m * (pi / 180)) * B
                      + sin (3 * m * (pi / 180)) * 0.000289"
  define k where "k = sin ((125.04 - 1934.136 * j) * (pi / 180))"
  have m: "GMAS (calcSolar u t SE) = Fin m"
    unfolding m_def using assms(1) by (simp add: calcSolar_GMAS)
  have c: "SEC (calcSolar u t SE) = Fin c"
    unfolding c_def A_def B_def using assms(1) m by (simp add: calcSolar_SEC DEG_TO_RAD_def)
  have stl: "STL (calcSolar u t SE) = Fin (g + c)"
    using assms(3) c by (simp add: calcSolar_STL)
  have sta: "STA (calcSolar u t SE) = Fin (m + c)"
    using m c by (simp add: calcSolar_STA)
  have sal: "SAL (calcSolar u t SE) = Fin (g + c - 0.00569 - 0.00478 * k)"
    unfolding k_def using assms(1) stl by (simp add: calcSolar_SAL DEG_TO_RAD_def)
  have "\<bar>0.000014 * j\<bar> \<le> 0.000014"
    using assms(2) by simp
  then have "\<bar>0.004817 + 0.000014 * j\<bar> \<le> 0.005"
    by (rule abs_sum_le) simp
  then have "\<bar>j * (0.004817 + 0.000014 * j)\<bar> \<le> 0.005"
    using assms(2) by (rule abs_mult_le1 [rotated])
  then have "\<bar>A\<bar> \<le> 1.92"
    unfolding A_def by (rule abs_diff_le) simp
  then have t1: "\<bar>sin (m * (pi / 180)) * A\<bar> \<le> 1.92"
    by (rule abs_mult_le1 [rotated]) simp
  have "\<bar>0.000101 * j\<bar> \<le> 0.000101"
    using assms(2) by simp
  then have "\<bar>B\<bar> \<le> 0.0201"
    unfolding B_def by (rule abs_diff_le) simp
  then have t2: "\<bar>sin (2 * m * (pi / 180)) * B\<bar> \<le> 0.0201"
    by (rule abs_mult_le1 [rotated]) simp
  have t3: "\<bar>sin (3 * m * (pi / 180)) * 0.000289\<bar> \<le> 0.000289"
    by (rule abs_mult_le1) simp_all
  have k: "\<bar>0.00478 * k\<bar> \<le> 0.00478"
    unfolding k_def by (simp add: abs_mult)
  have "\<bar>c\<bar> \<le> 1.92 + 0.0201 + 0.000289"
    unfolding c_def using t1 t2 t3 by linarith
  then have "\<bar>(g + c - 0.00569 - 0.00478 * k) - g\<bar> \<le> 1.92 + 0.0201 + 0.000289 + 0.00569 + 0.00478"
    using k by linarith
  then have "\<bar>(g + c - 0.00569 - 0.00478 * k) - g\<bar> \<le> 1.97"
    by simp
  with m c stl sta sal show ?thesis by blast
qed

lemma SDec_value:
  assumes "OC (calcSolar u t SE) = Fin oc" "SAL (calcSolar u t SE) = Fin sal"
  shows "SDec (calcSolar u t SE) =
           Fin (arcsin (sin (oc * (pi / 180)) * sin (sal * (pi / 180))) * (180 / pi))"
proof -
  have "\<bar>sin (oc * (pi / 180)) * sin (sal * (pi / 180))\<bar> \<le> 1 * 1"
    by (rule abs_prod_le) simp_all
  then have "- 1 \<le> sin (oc * (pi / 180)) * sin (sal * (pi / 180))"
    "sin (oc * (pi / 180)) * sin (sal * (pi / 180)) \<le> 1"
    by (simp_all add: abs_le_iff)
  then show ?thesis
    using assms by (simp add: calcSolar_SDec DEG_TO_RAD_def RAD_TO_DEG_def)
qed

lemma vy_bounds:
  assumes "OC (calcSolar u t SE) = Fin oc" "0 \<le> oc" "oc \<le> 89"
  shows "\<exists>v. vy (calcSolar u t SE) = Fin v \<and> 0 \<le> v \<and> v \<le> 1"
proof -
  define x where "x = oc / 2 * (pi / 180)"
  have "0 \<le> x"
    unfolding x_def using assms(2) by simp
  moreover have "oc / 2 * (pi / 180) \<le> 89 / 2 * (pi / 180)"
    using assms(3) by (intro mult_right_mono) simp_all
  then have "x < pi / 4"
    unfolding x_def by (simp; argo)
  ultimately have x: "\<bar>x\<bar> < pi / 4"
    by simp
  then have "\<bar>tan x\<bar> < 1"
    by (rule tan_bound_pi2)
  then have "\<bar>tan x * tan x\<bar> \<le> 1 * 1"
    by (intro abs_prod_le) simp_all
  moreover have "0 < cos x"
    using x by (intro cos_gt_zero_pi) (simp_all add: abs_less_iff; linarith)+
  then have "vy (calcSolar u t SE) = Fin (tan x * tan x)"
    unfolding x_def using assms(1) by (simp add: calcSolar_vy DEG_TO_RAD_def)
  ultimately show ?thesis by auto
qed

lemma abs_mult_le1': "\<bar>p\<bar> \<le> P \<Longrightarrow> \<bar>s\<bar> \<le> 1 \<Longrightarrow> \<bar>p * s\<bar> \<le> (P::real)"
  using abs_mult_le1 [of s p P] by (simp add: mult.commute)

lemma EOT_bounds:
  assumes v: "vy (calcSolar u t SE) = Fin v" "0 \<le> v" "v \<le> 1"
    and e: "EEO (calcSolar u t SE) = Fin e" "0 \<le> e" "e \<le> 0.0168"
    and g: "GMLS (calcSolar u t SE) = Fin g"
    and m: "GMAS (calcSolar u t SE) = Fin m"
  shows "\<exists>q. EOT (calcSolar u t SE) = Fin q \<and> \<bar>q\<bar> \<le> 400"
proof -
  define s1 where "s1 = sin (2 * (g * (pi / 180)))"
  define s2 where "s2 = sin (m * (pi / 180))"
  define c1 where "c1 = cos (2 * (g * (pi / 180)))"
  define s3 where "s3 = sin (4 * (g * (pi / 180)))"
  define s4 where "s4 = sin (2 * (m * (pi / 180)))"
  define w where "w = v * s1 - 2 * e * s2 + 4 * e * v * s2 * c1 - 0.5 * v * v * s3 - 1.25 * e * e * s4"
  have trig: "\<bar>s1\<bar> \<le> 1" "\<bar>s2\<bar> \<le> 1" "\<bar>c1\<bar> \<le> 1" "\<bar>s3\<bar> \<le> 1" "\<bar>s4\<bar> \<le> 1"
    unfolding s1_def s2_def c1_def s3_def s4_def by simp_all
  have av: "\<bar>v\<bar> \<le> 1" using v(2,3) by simp
  have ae: "\<bar>e\<bar> \<le> 0.0168" using e(2,3) by simp
  have t1: "\<bar>v * s1\<bar> \<le> 1"
    using av trig(1) by (rule abs_mult_le1')
  have "\<bar>2 * e\<bar> \<le> 0.0336" using e(2,3) by simp
  then have t2: "\<bar>2 * e * s2\<bar> \<le> 0.0336"
    using trig(2) by (rule abs_mult_le1')
  have "\<bar>4 * e\<bar> \<le> 0.0672" using e(2,3) by simp
  then have "\<bar>4 * e * v\<bar> \<le> 0.0672"
    using av by (rule abs_mult_le1')
  then have "\<bar>4 * e * v * s2\<bar> \<le> 0.0672"
    using trig(2) by (rule abs_mult_le1')
  then have t3: "\<bar>4 * e * v * s2 * c1\<bar> \<le> 0.0672"
    using trig(3) by (rule abs_mult_le1')
  have "\<bar>0.5 * v\<bar> \<le> 0.5" using v(2,3) by simp
  then have "\<bar>0.5 * v * v\<bar> \<le> 0.5"
    using av by (rule abs_mult_le1')
  then have t4: "\<bar>0.5 * v * v * s3\<bar> \<le> 0.5"
    using trig(4) by (rule abs_mult_le1')
  have "\<bar>1.25 * e\<bar> \<le> 0.021" using e(2,3) by simp
  then have "\<bar>1.25 * e * e\<bar> \<le> 0.021 * 0.0168"
    using ae by (rule abs_prod_le)
  then have "\<bar>1.25 * e * e\<bar> \<le> 0.001"
    by simp
  then have t5: "\<bar>1.25 * e * e * s4\<bar> \<le> 0.001"
    using trig(5) by (rule abs_mult_le1')
  have "\<bar>w\<bar> \<le> 1 + 0.0336 + 0.0672 + 0.5 + 0.001"
    unfolding w_def using t1 t2 t3 t4 t5 by linarith
  then have w: "\<bar>w\<bar> \<le> 1.61"
    by simp
  have "180 / pi \<le> 180 / 3"
    using pi_ge_3 by (intro divide_left_mono) simp_all
  then have "\<bar>180 / pi\<bar> \<le> 60"
    by simp
  with w have "\<bar>w * (180 / pi)\<bar> \<le> 1.61 * 60"
    by (rule abs_prod_le)
  then have "\<bar>4 * (w * (180 / pi))\<bar> \<le> 400"
    by (simp add: abs_mult)
  moreover have "EOT (calcSolar u t SE) = Fin (4 * (w * (180 / pi)))"
    unfolding w_def s1_def s2_def c1_def s3_def s4_def using v(1) e(1) g m
    by (simp add: calcSolar_EOT DEG_TO_RAD_def RAD_TO_DEG_def)
  ultimately show ?thesis by blast
qed

lemma rad_deg_cancel [simp]: "x * (180 / pi) * (pi / 180) = x"
  by simp

lemma sin_OC_bounds:
  assumes "22.5 \<le> oc" "oc \<le> 30"
  shows "0.38 \<le> sin (oc * (pi / 180))" "sin (oc * (pi / 180)) \<le> 1 / 2"
proof -
  define x where "x = oc * (pi / 180)"
  have "22.5 * (pi / 180) \<le> oc * (pi / 180)"
    using assms(1) by (intro mult_right_mono) simp_all
  then have lo: "pi / 8 \<le> x"
    unfolding x_def by simp
  have "oc * (pi / 180) \<le> 30 * (pi / 180)"
    using assms(2) by (intro mult_right_mono) simp_all
  then have hi: "x \<le> pi / 6"
    unfolding x_def by simp
  have "- (pi / 2) \<le> pi / 8" "x \<le> pi / 2" "- (pi / 2) \<le> x" "pi / 6 \<le> pi / 2"
    using lo hi pi_gt_zero by linarith+
  then have "sin (pi / 8) \<le> sin x" "sin x \<le> sin (pi / 6)"
    using lo hi by (auto intro: sin_monotone_2pi_le)
  then show "0.38 \<le> sin (oc * (pi / 180))" "sin (oc * (pi / 180)) \<le> 1 / 2"
    unfolding x_def using sin_pi_8_ge by (simp_all add: sin_30)
qed

lemma sin_near_270:
  assumes "\<bar>sal - 270\<bar> \<le> 2.5"
  shows "sin (sal * (pi / 180)) \<le> - 0.99" "- 1 \<le> sin (sal * (pi / 180))"
proof -
  define z where "z = (sal - 270) * (pi / 180)"
  have "\<bar>pi / 180\<bar> \<le> 4 / 180"
    using pi_less_4 by simp
  with assms have "\<bar>z\<bar> \<le> 2.5 * (4 / 180)"
    unfolding z_def by (rule abs_prod_le)
  then have "\<bar>z\<bar> \<le> 0.1" by simp
  then have "\<bar>z\<bar> \<le> \<bar>0.1\<bar>" by simp
  then have "z\<^sup>2 \<le> 0.1\<^sup>2"
    by (simp only: abs_le_square_iff)
  then have "1 - 0.01 / 2 \<le> 1 - z\<^sup>2 / 2"
    by (simp add: power2_eq_square)
  also have "\<dots> \<le> cos z"
    by (rule cos_ge_1_minus_half_sq)
  finally have c: "0.99 \<le> cos z" by simp
  have "sal * (pi / 180) = 3 / 2 * pi + z"
    unfolding z_def by (simp add: algebra_simps)
  then have "sin (sal * (pi / 180)) = sin (3 / 2 * pi + z)"
    by (simp only:)
  also have "\<dots> = - cos z"
    unfolding sin_add sin_3over2_pi cos_3over2_pi by simp
  finally have "sin (sal * (pi / 180)) = - cos z" .
  with c show "sin (sal * (pi / 180)) \<le> - 0.99" by simp
  show "- 1 \<le> sin (sal * (pi / 180))" by simp
qed

lemma JCN_P: "tzOffset SE = 0 \<Longrightarrow> JCN (calcSolar u 1356091200 SE) = Fin (4738 / 36525)"
  by (simp add: calcSolar_JCN_value c_div_def minute_def hour_def)

section \<open>Values of the fields after the equation of time\<close>

lemma MOE_finite:
  assumes "JCN (calcSolar u t SE) = Fin j"
  shows "MOE (calcSolar u t SE) \<noteq> NaN"
  using assms by (simp add: calcSolar_MOE)



lemma TST_value:
  assumes "EOT (calcSolar u t SE) = Fin q" "lon SE = Fin lo"
  shows "\<exists>x. TST (calcSolar u t SE) = Fin x \<and> 0 \<le> x \<and> x < 1440"
proof -
  define r where "r = (real_of_int (minute t) / 60 + real_of_int (hour t)) / 24 * 1440 + q
                       + 4 * lo - real_of_int (60 * tzOffset SE)"
  have "TST (calcSolar u t SE) = Fin (r - 1440 * of_int \<lfloor>r / 1440\<rfloor>)"
    unfolding r_def using assms
    by (simp add: calcSolar_TST timeFracDay_code double_of_int_def Let_def)
  moreover have "0 \<le> r - 1440 * of_int \<lfloor>r / 1440\<rfloor>" "r - 1440 * of_int \<lfloor>r / 1440\<rfloor> < 1440"
    by (rule floor_mod_range, simp)+
  ultimately show ?thesis by blast
qed

lemma HA_value:
  assumes "TST (calcSolar u t SE) = Fin x" "0 \<le> x"
  shows "HA (calcSolar u t SE) = Fin (x / 4 - 180)"
  using assms by (simp add: calcSolar_HA)

lemma SZA_value:
  assumes "lat SE = Fin a" "SDec (calcSolar u t SE) = Fin d" "HA (calcSolar u t SE) = Fin h"
  shows "SZA (calcSolar u t SE) =
           Fin (arccos (sin (a * (pi / 180)) * sin (d * (pi / 180))
                        + cos (a * (pi / 180)) * cos (d * (pi / 180)) * cos (h * (pi / 180)))
                * (180 / pi))"
  using assms zenith_arg_bounds [of "a * (pi / 180)" "d * (pi / 180)" "h * (pi / 180)"]
  by (simp add: calcSolar_SZA DEG_TO_RAD_def RAD_TO_DEG_def)

lemma HAS_arg:
  assumes "lat SE = Fin a" "cos (a * (pi / 180)) \<noteq> 0"
    and "SDec (calcSolar u t SE) = Fin (arcsin y * (180 / pi))" "- 1 < y" "y < 1"
  shows "HAS (calcSolar u t SE) =
           acos_d (Fin (cos (90.833 * (pi / 180)) / (cos (a * (pi / 180)) * sqrt (1 - y\<^sup>2))
                        - tan (a * (pi / 180)) * (y / sqrt (1 - y\<^sup>2))))
           * RAD_TO_DEG"
proof -
  have "y\<^sup>2 < 1"
    using assms(4,5) by (simp add: abs_square_less_1 abs_less_iff)
  then have s: "sqrt (1 - y\<^sup>2) \<noteq> 0"
    by simp
  have c: "cos (arcsin y) = sqrt (1 - y\<^sup>2)"
    using assms(4,5) by (intro cos_arcsin) simp_all
  have t: "tan (arcsin y) = y / sqrt (1 - y\<^sup>2)"
    unfolding tan_def c using assms(4,5) by simp
  show ?thesis
    using assms(1,2,3) s
    by (simp add: calcSolar_HAS DEG_TO_RAD_def c t)
qed

lemma core_values:
  assumes "JCN (calcSolar u t SE) = Fin j" "\<bar>j\<bar> \<le> 1"
  obtains g m c sal oc e v q where
    "GMLS (calcSolar u t SE) = Fin g"
    "g = 280.46646 + j * (36000.76983 + j * 0.0003032)
         - 360 * of_int \<lfloor>(280.46646 + j * (36000.76983 + j * 0.0003032)) / 360\<rfloor>"
    "GMAS (calcSolar u t SE) = Fin m" "SEC (calcSolar u t SE) = Fin c"
    "STL (calcSolar u t SE) = Fin (g + c)" "STA (calcSolar u t SE) = Fin (m + c)"
    "SAL (calcSolar u t SE) = Fin sal" "\<bar>sal - g\<bar> \<le> 1.97"
    "OC (calcSolar u t SE) = Fin oc" "23.42 \<le> oc" "oc \<le> 23.46"
    "EEO (calcSolar u t SE) = Fin e" "0.0166 \<le> e" "e \<le> 0.0168"
    "SDec (calcSolar u t SE) =
       Fin (arcsin (sin (oc * (pi / 180)) * sin (sal * (pi / 180))) * (180 / pi))"
    "vy (calcSolar u t SE) = Fin v" "0 \<le> v" "v \<le> 1"
    "EOT (calcSolar u t SE) = Fin q" "\<bar>q\<bar> \<le> 400"
proof -
  define g where "g = 280.46646 + j * (36000.76983 + j * 0.0003032)
         - 360 * of_int \<lfloor>(280.46646 + j * (36000.76983 + j * 0.0003032)) / 360\<rfloor>"
  have g: "GMLS (calcSolar u t SE) = Fin g"
    unfolding g_def using assms(1) by (rule GMLS_value)
  obtain m c sal where s: "GMAS (calcSolar u t SE) = Fin m" "SEC (calcSolar u t SE) = Fin c"
    "STL (calcSolar u t SE) = Fin (g + c)" "STA (calcSolar u t SE) = Fin (m + c)"
    "SAL (calcSolar u t SE) = Fin sal" "\<bar>sal - g\<bar> \<le> 1.97"
    using SAL_bounds [OF assms g] by blast
  obtain oc where oc: "OC (calcSolar u t SE) = Fin oc" "23.42 \<le> oc" "oc \<le> 23.46"
    using OC_bounds [OF assms] by blast
  obtain e where e: "EEO (calcSolar u t SE) = Fin e" "0.0166 \<le> e" "e \<le> 0.0168"
    using EEO_bounds [OF assms] by blast
  have d: "SDec (calcSolar u t SE) =
       Fin (arcsin (sin (oc * (pi / 180)) * sin (sal * (pi / 180))) * (180 / pi))"
    using oc(1) s(5) by (rule SDec_value)
  have "0 \<le> oc" "oc \<le> 89"
    using oc(2,3) by simp_all
  then obtain v where v: "vy (calcSolar u t SE) = Fin v" "0 \<le> v" "v \<le> 1"
    using vy_bounds [OF oc(1)] by blast
  have "0 \<le> e" using e(2) by simp
  then obtain q where q: "EOT (calcSolar u t SE) = Fin q" "\<bar>q\<bar> \<le> 400"
    using EOT_bounds [OF v e(1) _ e(3) g s(1)] by blast
  from g g_def s oc e d v q show ?thesis
    by (rule that)
qed

text \<open>The declination is the arcsine of a product of sines with absolute value at most 1/2.\<close>

lemma dec_sine_bounds:
  assumes "23.42 \<le> oc" "oc \<le> 23.46"
  shows "\<bar>sin (oc * (pi / 180)) * sin (sal * (pi / 180))\<bar> \<le> 1 / 2"
proof -
  have "0.38 \<le> sin (oc * (pi / 180))" "sin (oc * (pi / 180)) \<le> 1 / 2"
    using assms by (intro sin_OC_bounds; simp)+
  then have "\<bar>sin (oc * (pi / 180))\<bar> \<le> 1 / 2"
    by simp
  then show ?thesis
    by (rule abs_mult_le1') simp
qed

lemma dec_sine_solstice:
  assumes "23.42 \<le> oc" "oc \<le> 23.46" "\<bar>sal - 270\<bar> \<le> 2.5"
  shows "sin (oc * (pi / 180)) * sin (sal * (pi / 180)) \<le> - 0.37"
proof -
  have a: "0.38 \<le> sin (oc * (pi / 180))"
    using assms(1,2) by (intro sin_OC_bounds; simp)
  have b: "0.99 \<le> - sin (sal * (pi / 180))"
    using sin_near_270(1) [OF assms(3)] by simp
  have "0.38 * 0.99 \<le> sin (oc * (pi / 180)) * (- sin (sal * (pi / 180)))"
    using a b by (intro mult_mono) simp_all
  then show ?thesis by simp
qed

lemma GMLS_P:
  fixes g :: real
  assumes "g = 280.46646 + (4738 / 36525) * (36000.76983 + (4738 / 36525) * 0.0003032)
     - 360 * of_int \<lfloor>(280.46646 + (4738 / 36525) * (36000.76983 + (4738 / 36525) * 0.0003032)) / (360::real)\<rfloor>"
  shows "270.4 \<le> g" "g \<le> 270.5"
  unfolding assms by simp_all

section \<open>Latitude 75 north on 2012-12-21, 12:00 UTC\<close>

lemma cos_90833: "- 0.0186 \<le> cos (90.833 * (pi / 180))" "cos (90.833 * (pi / 180)) \<le> 0"
proof -
  define z where "z = 0.833 * (pi / 180)"
  have z: "0 \<le> z" "z \<le> 0.0186"
    unfolding z_def using pi_less_4 by simp_all
  have "90.833 * (pi / 180) = pi / 2 + z"
    unfolding z_def by simp
  then have "cos (90.833 * (pi / 180)) = cos (pi / 2 + z)"
    by (simp only:)
  also have "\<dots> = - sin z"
    unfolding cos_add by simp
  finally have c: "cos (90.833 * (pi / 180)) = - sin z" .
  have "sin z \<le> z"
    using z(1) by (rule sin_x_le_x)
  then show "- 0.0186 \<le> cos (90.833 * (pi / 180))"
    unfolding c using z(2) by simp
  have "0 \<le> sin z"
    using z pi_ge_3 by (intro sin_ge_zero) simp_all
  then show "cos (90.833 * (pi / 180)) \<le> 0"
    unfolding c by simp
qed

lemma sqrt_dec_bounds:
  fixes y :: real
  assumes "\<bar>y\<bar> \<le> 1 / 2"
  shows "0.86 \<le> sqrt (1 - y\<^sup>2)" "sqrt (1 - y\<^sup>2) \<le> 1"
proof -
  have "\<bar>y\<bar> \<le> \<bar>1 / 2\<bar>" using assms by simp
  then have "y\<^sup>2 \<le> (1 / 2)\<^sup>2"
    by (simp only: abs_le_square_iff)
  then have y2: "y\<^sup>2 \<le> 1 / 4"
    by (simp add: power2_eq_square)
  then have "(0.86::real)\<^sup>2 \<le> 1 - y\<^sup>2"
    by (simp add: power2_eq_square)
  then show "0.86 \<le> sqrt (1 - y\<^sup>2)"
    by (rule real_le_rsqrt)
  have "sqrt (1 - y\<^sup>2) \<le> sqrt 1"
    by (subst real_sqrt_le_iff) simp
  then show "sqrt (1 - y\<^sup>2) \<le> 1" by simp
qed

lemma polar_arg_gt_1:
  fixes y :: real
  assumes "- (1 / 2) \<le> y" "y \<le> - 0.37"
  shows "1 < cos (90.833 * (pi / 180)) / (cos (75 * (pi / 180)) * sqrt (1 - y\<^sup>2))
             - tan (75 * (pi / 180)) * (y / sqrt (1 - y\<^sup>2))"
proof -
  define s where "s = sqrt (1 - y\<^sup>2)"
  define ca where "ca = cos (75 * (pi / 180))"
  define ta where "ta = tan (75 * (pi / 180))"
  define C where "C = cos (90.833 * (pi / 180))"
  have "\<bar>y\<bar> \<le> 1 / 2" using assms by simp
  then have s: "0.86 \<le> s" "s \<le> 1"
    unfolding s_def by (rule sqrt_dec_bounds)+
  have ca: "0.25 \<le> ca"
    unfolding ca_def by (rule cos_75_bounds)
  have ta: "3.69 \<le> ta"
    unfolding ta_def by (rule tan_75_ge)
  have C: "- 0.0186 \<le> C"
    unfolding C_def by (rule cos_90833)
  have "0.25 * 0.86 \<le> ca * s"
    using ca s(1) by (intro mult_mono) simp_all
  then have cas: "0.215 \<le> ca * s" by simp
  then have "- 0.1 * (ca * s) \<le> C"
    using C by simp
  then have t1: "- 0.1 \<le> C / (ca * s)"
    using cas by (simp add: pos_le_divide_eq)
  define r where "r = y / s"
  define T1 where "T1 = C / (ca * s)"
  define T2 where "T2 = ta * (- r)"
  have "y \<le> y * s"
    using assms(2) s by (simp add: mult_le_cancel_left2)
  then have "r \<le> y"
    unfolding r_def using s(1) by (simp add: pos_divide_le_eq)
  then have ys: "0.37 \<le> - r"
    using assms(2) by simp
  have "3.69 * 0.37 \<le> ta * (- r)"
    using ta ys by (intro mult_mono) simp_all
  then have t2: "1.3 \<le> T2"
    unfolding T2_def by simp
  have "- 0.1 \<le> T1"
    unfolding T1_def by (rule t1)
  with t2 have "1 < T1 + T2"
    by simp
  then show ?thesis
    unfolding T1_def T2_def r_def C_def ca_def s_def ta_def by simp
qed

lemma polar_zenith_bounds:
  fixes y k :: real
  assumes "- (1 / 2) \<le> y" "y \<le> - 0.37" "\<bar>k\<bar> \<le> 1"
  shows "- 0.8 \<le> sin (75 * (pi / 180)) * y + cos (75 * (pi / 180)) * sqrt (1 - y\<^sup>2) * k"
    and "sin (75 * (pi / 180)) * y + cos (75 * (pi / 180)) * sqrt (1 - y\<^sup>2) * k \<le> - 0.09"
proof -
  define s where "s = sqrt (1 - y\<^sup>2)"
  define ca where "ca = cos (75 * (pi / 180))"
  define sa where "sa = sin (75 * (pi / 180))"
  have "\<bar>y\<bar> \<le> 1 / 2" using assms by simp
  then have s: "0.86 \<le> s" "s \<le> 1"
    unfolding s_def by (rule sqrt_dec_bounds)+
  have ca: "0.25 \<le> ca" "ca \<le> 0.26"
    unfolding ca_def by (rule cos_75_bounds)+
  have sa: "0.96 \<le> sa" "sa \<le> 1"
    unfolding sa_def using sin_75_bounds by simp_all
  have "\<bar>ca * s\<bar> \<le> 0.26 * 1"
    using ca s by (intro abs_prod_le) simp_all
  then have "\<bar>ca * s * k\<bar> \<le> 0.26 * 1"
    using assms(3) by (rule abs_mult_le1')
  then have t2: "- 0.26 \<le> ca * s * k" "ca * s * k \<le> 0.26"
    by (simp_all add: abs_le_iff; argo)+
  have "0.96 * (- y) \<le> sa * (- y)"
    using sa(1) assms(2) by (intro mult_right_mono) simp_all
  then have "sa * y \<le> 0.96 * y" by simp
  also have "\<dots> \<le> 0.96 * (- 0.37)"
    using assms(2) by simp
  finally have t1u: "sa * y \<le> - 0.3552" by simp
  have "sa * (- y) \<le> 1 * (1 / 2)"
    using sa assms by (intro mult_mono) simp_all
  then have t1l: "- 0.5 \<le> sa * y" by simp
  show "- 0.8 \<le> sin (75 * (pi / 180)) * y + cos (75 * (pi / 180)) * sqrt (1 - y\<^sup>2) * k"
    using t1l t2(1) unfolding sa_def ca_def s_def by simp
  show "sin (75 * (pi / 180)) * y + cos (75 * (pi / 180)) * sqrt (1 - y\<^sup>2) * k \<le> - 0.09"
    using t1u t2(2) unfolding sa_def ca_def s_def by simp
qed

lemma arccos_neg_bound:
  assumes "- 1 \<le> x" "x \<le> - 0.09"
  shows "pi / 2 + 0.09 \<le> arccos x"
proof -
  define th :: real where "th = pi / 2 + 0.09"
  have th: "0 \<le> th" "th \<le> pi"
    unfolding th_def using pi_ge_3 by simp_all
  have "cos th = - sin 0.09"
    unfolding th_def cos_add by simp
  moreover have "sin (0.09::real) \<le> 0.09"
    by (rule sin_x_le_x) simp
  ultimately have c: "x \<le> cos th"
    using assms(2) by simp
  have "arccos (cos th) \<le> arccos x"
    using assms(1) c by (intro arccos_le_arccos) simp_all
  then show ?thesis
    using th by (simp add: arccos_cos th_def)
qed


lemma SAA_finite:
  assumes a: "lat SE = Fin a" "0 < cos (a * (pi / 180))"
    and d: "SDec (calcSolar u t SE) = Fin (arcsin y * (180 / pi))" "\<bar>y\<bar> \<le> 1"
    and h: "HA (calcSolar u t SE) = Fin h"
    and x: "\<bar>sin (a * (pi / 180)) * y + cos (a * (pi / 180)) * sqrt (1 - y\<^sup>2) * cos (h * (pi / 180))\<bar> < 1"
  shows "SAA (calcSolar u t SE) \<noteq> NaN"
proof -
  define x where "x = sin (a * (pi / 180)) * y + cos (a * (pi / 180)) * sqrt (1 - y\<^sup>2) * cos (h * (pi / 180))"
  have y: "- 1 \<le> y" "y \<le> 1"
    using d(2) by simp_all
  have sd: "sin (arcsin y) = y" and cd: "cos (arcsin y) = sqrt (1 - y\<^sup>2)"
    using y by (simp_all add: cos_arcsin)
  have x1: "\<bar>x\<bar> < 1" "- 1 \<le> x" "x \<le> 1"
    using x unfolding x_def by simp_all
  have xeq: "x = sin (a * (pi / 180)) * sin (arcsin y)
               + cos (a * (pi / 180)) * cos (arcsin y) * cos (h * (pi / 180))"
    unfolding x_def sd cd ..
  have z: "SZA (calcSolar u t SE) = Fin (arccos x * (180 / pi))"
    unfolding xeq using SZA_value [OF a(1) d(1) h] by simp
  have sx: "sin (arccos x) = sqrt (1 - x\<^sup>2)"
    using x1 by (intro sin_arccos) simp_all
  have "x\<^sup>2 < 1" using x1(1) by (simp add: abs_square_less_1)
  then have pos: "0 < sqrt (1 - x\<^sup>2)" by simp
  have "\<bar>(sin (a * (pi / 180)) * x - sin (arcsin y)) / (cos (a * (pi / 180)) * sqrt (1 - x\<^sup>2))\<bar> \<le> 1"
    unfolding xeq using a(2) x1(1) unfolding xeq by (rule azimuth_arg_bounds)
  then have arg: "- 1 \<le> (sin (a * (pi / 180)) * x - y) / (cos (a * (pi / 180)) * sqrt (1 - x\<^sup>2))"
    "(sin (a * (pi / 180)) * x - y) / (cos (a * (pi / 180)) * sqrt (1 - x\<^sup>2)) \<le> 1"
    unfolding sd by (simp_all add: abs_le_iff; argo)+
  show ?thesis
    using a d(1) h z x1(2,3) pos arg
    by (simp add: calcSolar_SAA Let_def DEG_TO_RAD_def RAD_TO_DEG_def sx sd)
qed

lemma calcSolar_P_time:
  "timeFracDay (calcSolar u 1356091200 SE) = Fin (1 / 2)"
  "unixDays (calcSolar u 1356091200 SE) = 15695"
  by (simp_all add: timeFracDay_code calcSolar_unixDays c_div_def minute_def hour_def)

lemma elevation_night:
  assumes "- 1 < x" "x \<le> - 0.09"
  defines "sea \<equiv> 90 - arccos x * (180 / pi)"
  shows "sea \<le> - 4" "cos (sea * (pi / 180)) \<noteq> 0" "tan (sea * (pi / 180)) \<noteq> 0"
proof -
  define A where "A = arccos x"
  have x: "- 1 \<le> x" "x \<le> 1" "x < 0"
    using assms(1,2) by simp_all
  have A: "pi / 2 + 0.09 \<le> A"
    unfolding A_def using x(1) assms(2) by (rule arccos_neg_bound)
  have "0.09 * 180 / 4 \<le> 0.09 * 180 / pi"
    using pi_less_4 by (intro divide_left_mono) simp_all
  then have "90 + 4 \<le> (pi / 2 + 0.09) * (180 / pi)"
    by (simp add: field_simps)
  also have "\<dots> \<le> A * (180 / pi)"
    using A by (intro mult_right_mono) simp_all
  finally show "sea \<le> - 4"
    unfolding sea_def A_def by simp
  have ang: "sea * (pi / 180) = pi / 2 - A"
    unfolding sea_def A_def by (simp add: field_simps)
  have "x\<^sup>2 < 1"
    using assms(1) x by (simp add: abs_square_less_1 abs_less_iff)
  then have pos: "0 < sqrt (1 - x\<^sup>2)" by simp
  have s: "sin A = sqrt (1 - x\<^sup>2)"
    unfolding A_def using x by (intro sin_arccos)
  have c: "cos A = x"
    unfolding A_def using x by simp
  have cs: "cos (pi / 2 - A) = sin A" "sin (pi / 2 - A) = cos A"
    by (simp_all add: cos_diff sin_diff)
  show "cos (sea * (pi / 180)) \<noteq> 0"
    unfolding ang cs s using pos by simp
  show "tan (sea * (pi / 180)) \<noteq> 0"
    unfolding ang tan_def cs s c using pos x(3) by simp
qed

lemma polar_values:
  assumes cfg: "tzOffset SE = 0" "lat SE = 75" "lon SE = Fin lo"
  shows "HAS (calcSolar u 1356091200 SE) = NaN"
    and "\<exists>q. EOT (calcSolar u 1356091200 SE) = Fin q"
    and "\<exists>x. TST (calcSolar u 1356091200 SE) = Fin x \<and> 0 \<le> x \<and> x < 1440"
    and "HA (calcSolar u 1356091200 SE) \<noteq> NaN"
    and "SZA (calcSolar u 1356091200 SE) \<noteq> NaN"
    and "\<exists>e. SEA (calcSolar u 1356091200 SE) = Fin e \<and> e \<le> - 4"
    and "AAR (calcSolar u 1356091200 SE) \<noteq> NaN"
    and "SEC_Corr (calcSolar u 1356091200 SE) \<noteq> NaN"
    and "SAA (calcSolar u 1356091200 SE) \<noteq> NaN"
proof -
  let ?R = "calcSolar u 1356091200 SE"
  have j: "JCN ?R = Fin (4738 / 36525)"
    using cfg(1) by (rule JCN_P)
  have "\<bar>4738 / 36525 :: real\<bar> \<le> 1" by simp
  with j obtain g m c sal oc e v q where
    core: "GMLS ?R = Fin g"
    "g = 280.46646 + (4738 / 36525) * (36000.76983 + (4738 / 36525) * 0.0003032)
         - 360 * of_int \<lfloor>(280.46646 + (4738 / 36525) * (36000.76983 + (4738 / 36525) * 0.0003032)) / (360::real)\<rfloor>"
    "GMAS ?R = Fin m" "SEC ?R = Fin c"
    "STL ?R = Fin (g + c)" "STA ?R = Fin (m + c)"
    "SAL ?R = Fin sal" "\<bar>sal - g\<bar> \<le> 1.97"
    "OC ?R = Fin oc" "23.42 \<le> oc" "oc \<le> 23.46"
    "EEO ?R = Fin e" "0.0166 \<le> e" "e \<le> 0.0168"
    "SDec ?R = Fin (arcsin (sin (oc * (pi / 180)) * sin (sal * (pi / 180))) * (180 / pi))"
    "vy ?R = Fin v" "0 \<le> v" "v \<le> 1"
    "EOT ?R = Fin q" "\<bar>q\<bar> \<le> 400"
    by (rule core_values)
  define y where "y = sin (oc * (pi / 180)) * sin (sal * (pi / 180))"
  have g: "270.4 \<le> g" "g \<le> 270.5"
    using core(2) by (rule GMLS_P)+
  with core(8) have "\<bar>sal - 270\<bar> \<le> 2.5"
    by (simp; argo)
  then have "y \<le> - 0.37"
    unfolding y_def using core(10,11) by (intro dec_sine_solstice)
  moreover have "\<bar>y\<bar> \<le> 1 / 2"
    unfolding y_def using core(10,11) by (rule dec_sine_bounds)
  ultimately have y: "- (1 / 2) \<le> y" "y \<le> - 0.37" "- 1 < y" "y < 1" "\<bar>y\<bar> \<le> 1"
    by simp_all
  have d: "SDec ?R = Fin (arcsin y * (180 / pi))"
    unfolding y_def by (rule core(15))
  have la: "lat SE = Fin 75"
    using cfg(2) by simp
  have ca: "0 < cos (75 * (pi / 180))"
    using cos_75_bounds(1) by simp
  then have ca0: "cos (75 * (pi / 180)) \<noteq> 0"
    by simp
  have "1 < cos (90.833 * (pi / 180)) / (cos (75 * (pi / 180)) * sqrt (1 - y\<^sup>2))
             - tan (75 * (pi / 180)) * (y / sqrt (1 - y\<^sup>2))"
    using y(1,2) by (rule polar_arg_gt_1)
  then show "HAS ?R = NaN"
    using HAS_arg [OF la ca0 d y(3,4)] by simp
  show "\<exists>q. EOT ?R = Fin q"
    using core(19) by blast
  obtain x where x: "TST ?R = Fin x" "0 \<le> x" "x < 1440"
    using TST_value [OF core(19) cfg(3)] by blast
  then show "\<exists>x. TST ?R = Fin x \<and> 0 \<le> x \<and> x < 1440"
    by blast
  have h: "HA ?R = Fin (x / 4 - 180)"
    using x(1,2) by (rule HA_value)
  then show "HA ?R \<noteq> NaN" by simp
  define k where "k = cos ((x / 4 - 180) * (pi / 180))"
  define w where "w = sin (75 * (pi / 180)) * y + cos (75 * (pi / 180)) * sqrt (1 - y\<^sup>2) * k"
  have "\<bar>k\<bar> \<le> 1"
    unfolding k_def by simp
  then have w: "- 0.8 \<le> w" "w \<le> - 0.09"
    unfolding w_def using y(1,2) by (intro polar_zenith_bounds; simp)+
  have cd: "cos (arcsin y) = sqrt (1 - y\<^sup>2)"
    using y by (intro cos_arcsin) simp_all
  have z: "SZA ?R = Fin (arccos w * (180 / pi))"
    unfolding w_def k_def using SZA_value [OF la d h] y by (simp add: cd)
  then show "SZA ?R \<noteq> NaN" by simp
  define sea where "sea = 90 - arccos w * (180 / pi)"
  have sea: "SEA ?R = Fin sea"
    unfolding sea_def using z by (simp add: calcSolar_SEA)
  have "- 1 < w" using w(1) by simp
  then have night: "sea \<le> - 4" "cos (sea * (pi / 180)) \<noteq> 0" "tan (sea * (pi / 180)) \<noteq> 0"
    unfolding sea_def using w(2) by (rule elevation_night)+
  then show "\<exists>e. SEA ?R = Fin e \<and> e \<le> - 4"
    using sea by blast
  have aar: "AAR ?R = Fin (- 20.772 / tan (sea * (pi / 180)) / 3600)"
    using sea night by (simp add: calcSolar_AAR DEG_TO_RAD_def)
  then show "AAR ?R \<noteq> NaN" by simp
  show "SEC_Corr ?R \<noteq> NaN"
    using sea aar by (simp add: calcSolar_SEC_Corr)
  have "\<bar>w\<bar> < 1"
    using w by simp
  then show "SAA ?R \<noteq> NaN"
    unfolding w_def k_def using SAA_finite [OF la ca d y(5) h] by simp
qed

section \<open>The result does not depend on the fields of an earlier calculation\<close>


section \<open>Finite fields, and the fields that follow the hour angle of sunrise\<close>


lemma noon_finite:
  assumes "EOT (calcSolar u t SE) = Fin q" "lon SE = Fin lo"
  shows "SolarNoonfrac (calcSolar u t SE) = Fin ((720 - 4 * lo - q) / 1440)"
    and "SolarNoonDays (calcSolar u t SE) =
           Fin (real_of_int (c_div t 86400) + (720 - 4 * lo - q) / 1440
                + real_of_int (tzOffset SE) / 24)"
  using assms
  by (simp_all add: calcSolar_SolarNoonfrac calcSolar_SolarNoonDays calcSolar_unixDays
      double_of_int_def)


section \<open>The normalised fields\<close>




section \<open>Sunrise, solar noon and sunset\<close>

lemma trunc_mono:
  assumes "x \<le> y"
  shows "trunc x \<le> trunc y"
proof (cases "0 \<le> x")
  case True
  with assms show ?thesis
    by (simp add: trunc_def floor_mono)
next
  case False
  show ?thesis
  proof (cases "0 \<le> y")
    case True
    have "\<lceil>x\<rceil> \<le> 0" using False by (simp add: ceiling_le_zero)
    also have "0 \<le> \<lfloor>y\<rfloor>" using True by simp
    finally show ?thesis using False True by (simp add: trunc_def)
  next
    case y: False
    with False assms show ?thesis
      by (simp add: trunc_def ceiling_mono)
  qed
qed


text \<open>The equator on 2012-12-21, 12:00 UTC: the sun rises and sets.\<close>

lemma equator_arg_bounds:
  fixes y :: real
  assumes "\<bar>y\<bar> \<le> 1 / 2"
  shows "- 1 \<le> cos (90.833 * (pi / 180)) / sqrt (1 - y\<^sup>2)"
    and "cos (90.833 * (pi / 180)) / sqrt (1 - y\<^sup>2) \<le> 1"
proof -
  define s where "s = sqrt (1 - y\<^sup>2)"
  define C where "C = cos (90.833 * (pi / 180))"
  have s: "0.86 \<le> s" "s \<le> 1"
    unfolding s_def using assms by (rule sqrt_dec_bounds)+
  have C: "- 0.0186 \<le> C" "C \<le> 0"
    unfolding C_def by (rule cos_90833)+
  have "- 1 * s \<le> C"
    using s(1) C(1) by simp
  then show "- 1 \<le> cos (90.833 * (pi / 180)) / sqrt (1 - y\<^sup>2)"
    unfolding s_def [symmetric] C_def [symmetric] using s(1) by (simp add: pos_le_divide_eq)
  have "C \<le> 1 * s"
    using s(1) C(2) by simp
  then show "cos (90.833 * (pi / 180)) / sqrt (1 - y\<^sup>2) \<le> 1"
    unfolding s_def [symmetric] C_def [symmetric] using s(1) by (simp add: pos_divide_le_eq)
qed

lemma equator_day_values:
  assumes cfg: "tzOffset SE = 0" "lat SE = 0" "lon SE = Fin lo"
  shows "\<exists>sr ss nd. Sunrise (calcSolar u 1356091200 SE) = Fin sr \<and>
           Sunset (calcSolar u 1356091200 SE) = Fin ss \<and>
           SolarNoonDays (calcSolar u 1356091200 SE) = Fin nd"
proof -
  let ?R = "calcSolar u 1356091200 SE"
  have j: "JCN ?R = Fin (4738 / 36525)"
    using cfg(1) by (rule JCN_P)
  have "\<bar>4738 / 36525 :: real\<bar> \<le> 1" by simp
  with j obtain g m c sal oc e v q where
    core: "GMLS ?R = Fin g"
    "g = 280.46646 + (4738 / 36525) * (36000.76983 + (4738 / 36525) * 0.0003032)
         - 360 * of_int \<lfloor>(280.46646 + (4738 / 36525) * (36000.76983 + (4738 / 36525) * 0.0003032)) / (360::real)\<rfloor>"
    "GMAS ?R = Fin m" "SEC ?R = Fin c"
    "STL ?R = Fin (g + c)" "STA ?R = Fin (m + c)"
    "SAL ?R = Fin sal" "\<bar>sal - g\<bar> \<le> 1.97"
    "OC ?R = Fin oc" "23.42 \<le> oc" "oc \<le> 23.46"
    "EEO ?R = Fin e" "0.0166 \<le> e" "e \<le> 0.0168"
    "SDec ?R = Fin (arcsin (sin (oc * (pi / 180)) * sin (sal * (pi / 180))) * (180 / pi))"
    "vy ?R = Fin v" "0 \<le> v" "v \<le> 1"
    "EOT ?R = Fin q" "\<bar>q\<bar> \<le> 400"
    by (rule core_values)
  define y where "y = sin (oc * (pi / 180)) * sin (sal * (pi / 180))"
  have y: "\<bar>y\<bar> \<le> 1 / 2"
    unfolding y_def using core(10,11) by (rule dec_sine_bounds)
  then have y1: "- 1 < y" "y < 1"
    by simp_all
  have d: "SDec ?R = Fin (arcsin y * (180 / pi))"
    unfolding y_def by (rule core(15))
  have la: "lat SE = Fin 0"
    using cfg(2) by simp
  have h: "HAS ?R = Fin (arccos (cos (90.833 * (pi / 180)) / sqrt (1 - y\<^sup>2)) * (180 / pi))"
    using HAS_arg [OF la _ d y1] equator_arg_bounds [OF y] by (simp add: RAD_TO_DEG_def)
  note n = noon_finite [OF core(19) cfg(3)]
  have "Sunrise ?R \<noteq> NaN" "Sunset ?R \<noteq> NaN"
    using h n(1) by (simp_all add: calcSolar_Sunrise calcSolar_Sunset calcSolar_unixDays double_of_int_def)
  then show ?thesis
    using n(2) by (cases "Sunrise ?R"; cases "Sunset ?R") auto
qed

section \<open>Conversion to \<^verbatim>\<open>time_t\<close>, and a shift of the clock\<close>

lemma trunc_of_int [simp]: "trunc (real_of_int k) = k"
  by (simp add: trunc_def)

lemma trunc_bounds:
  "real_of_int k \<le> x \<Longrightarrow> k \<le> trunc x" "x \<le> real_of_int k \<Longrightarrow> trunc x \<le> k"
  using trunc_mono [of "real_of_int k" x] trunc_mono [of x "real_of_int k"] by simp_all

lemma noon_time_bounds:
  assumes j: "JCN (calcSolar u t SE) = Fin j" "\<bar>j\<bar> \<le> 1" and lo: "lon SE = 0"
  shows "86400 * c_div t 86400 + 3600 * tzOffset SE + 19200 \<le> SolarNoonTime (calcSolar u t SE)"
    and "SolarNoonTime (calcSolar u t SE) \<le> 86400 * c_div t 86400 + 3600 * tzOffset SE + 67200"
proof -
  let ?R = "calcSolar u t SE"
  obtain g m c sal oc e v q where
    core: "GMLS ?R = Fin g"
    "g = 280.46646 + j * (36000.76983 + j * 0.0003032)
         - 360 * of_int \<lfloor>(280.46646 + j * (36000.76983 + j * 0.0003032)) / 360\<rfloor>"
    "GMAS ?R = Fin m" "SEC ?R = Fin c"
    "STL ?R = Fin (g + c)" "STA ?R = Fin (m + c)"
    "SAL ?R = Fin sal" "\<bar>sal - g\<bar> \<le> 1.97"
    "OC ?R = Fin oc" "23.42 \<le> oc" "oc \<le> 23.46"
    "EEO ?R = Fin e" "0.0166 \<le> e" "e \<le> 0.0168"
    "SDec ?R = Fin (arcsin (sin (oc * (pi / 180)) * sin (sal * (pi / 180))) * (180 / pi))"
    "vy ?R = Fin v" "0 \<le> v" "v \<le> 1"
    "EOT ?R = Fin q" "\<bar>q\<bar> \<le> 400"
    using j by (rule core_values)
  define b where "b = 86400 * c_div t 86400 + 3600 * tzOffset SE"
  have l: "lon SE = Fin 0" using lo by simp
  have q: "- 400 \<le> q" "q \<le> 400"
    using core(20) by simp_all
  have "SolarNoonDays ?R * 86400 = Fin (real_of_int b + 43200 - 60 * q)"
    unfolding b_def using noon_finite(2) [OF core(19) l] by (simp add: field_simps)
  then have n: "SolarNoonTime ?R = trunc (real_of_int b + 43200 - 60 * q)"
    by (simp add: calcSolar_SolarNoonTime)
  have "real_of_int (b + 19200) \<le> real_of_int b + 43200 - 60 * q"
    using q(2) by simp
  then show "86400 * c_div t 86400 + 3600 * tzOffset SE + 19200 \<le> SolarNoonTime ?R"
    unfolding n b_def [symmetric] by (rule trunc_bounds)
  have "real_of_int b + 43200 - 60 * q \<le> real_of_int (b + 67200)"
    using q(1) by simp
  then show "SolarNoonTime ?R \<le> 86400 * c_div t 86400 + 3600 * tzOffset SE + 67200"
    unfolding n b_def [symmetric] by (rule trunc_bounds)
qed

lemma shift_clock:
  assumes "0 \<le> t" "0 \<le> t + 3600 * dz" "(t + 3600 * dz) div 86400 = t div 86400"
  shows "minute (t + 3600 * dz) = minute t" "hour (t + 3600 * dz) = hour t + dz"
    "c_div (t + 3600 * dz) 86400 = c_div t 86400"
proof -
  have "(t + 3600 * dz) div 60 = t div 60 + 60 * dz"
    by simp
  then show "minute (t + 3600 * dz) = minute t"
    by (simp add: minute_def)
  have d: "(t + 3600 * dz) div 3600 = t div 3600 + dz"
    by simp
  have "t div 86400 = t div 3600 div 24" "(t + 3600 * dz) div 86400 = (t + 3600 * dz) div 3600 div 24"
    using zdiv_zmult2_eq [of 24 _ 3600] by simp_all
  then have "(t div 3600 + dz) div 24 = t div 3600 div 24"
    using assms(3) d by simp
  then have "(t div 3600 + dz) mod 24 = t div 3600 mod 24 + dz"
    using div_mult_mod_eq [of "t div 3600 + dz" 24] div_mult_mod_eq [of "t div 3600" 24]
    by linarith
  then show "hour (t + 3600 * dz) = hour t + dz"
    by (simp add: hour_def d)
  show "c_div (t + 3600 * dz) 86400 = c_div t 86400"
    using assms by (simp add: c_div_nonneg)
qed

section \<open>Two concrete instances\<close>

text \<open>On 2006-06-20, 00:00 UTC the correction of the obliquity is not zero.\<close>

lemma OC_differs_2006:
  assumes "tzOffset SE = 0"
  shows "OC (calcSolar u 1150761600 SE) \<noteq> MOE (calcSolar u 1150761600 SE)"
proof -
  let ?R = "calcSolar u 1150761600 SE"
  have j: "JCN ?R = Fin (4723 / 73050)"
    using assms by (simp add: calcSolar_JCN_value c_div_def minute_def hour_def)
  define x :: real where "x = (125.04 - 1934.136 * (4723 / 73050)) * (pi / 180)"
  have "\<bar>125.04 - 1934.136 * (4723 / 73050) :: real\<bar> \<le> 1"
    by simp
  moreover have "\<bar>pi / 180\<bar> \<le> 1"
    using pi_less_4 by simp
  ultimately have "\<bar>x\<bar> \<le> 1 * 1"
    unfolding x_def by (rule abs_prod_le)
  then have "- (pi / 2) < x" "x < pi / 2"
    using pi_ge_3 by (simp_all add: abs_le_iff; argo)+
  then have c: "0 < cos x"
    by (rule cos_gt_zero_pi)
  obtain mo where mo: "MOE ?R = Fin mo"
    using MOE_finite [OF j] by (cases "MOE ?R") simp_all
  have "OC ?R = Fin (mo + 0.00256 * cos x)"
    unfolding x_def using j mo by (simp add: calcSolar_OC DEG_TO_RAD_def)
  then show ?thesis
    using mo c by simp
qed

text \<open>At latitude 75 north on 2012-12-21 the sun is below \<open>-0.575\<close> degrees.\<close>

lemma polar_refraction:
  assumes cfg: "tzOffset SE = 0" "lat SE = 75" "lon SE = Fin lo"
  shows "SEA (calcSolar u 1356091200 SE) \<le> - 0.575"
    and "AAR (calcSolar u 1356091200 SE)
           = - 20.772 / tan_d (SEA (calcSolar u 1356091200 SE) * DEG_TO_RAD) / 3600"
proof -
  obtain e where e: "SEA (calcSolar u 1356091200 SE) = Fin e" "e \<le> - 4"
    using polar_values(6) [OF cfg] by blast
  then show "SEA (calcSolar u 1356091200 SE) \<le> - 0.575"
    by simp
  show "AAR (calcSolar u 1356091200 SE)
           = - 20.772 / tan_d (SEA (calcSolar u 1356091200 SE) * DEG_TO_RAD) / 3600"
    using e by (simp add: calcSolar_AAR)
qed


section \<open>Rounding to a double\<close>




section \<open>The \<^verbatim>\<open>time_t\<close> outputs around solar noon\<close>







section \<open>The claims\<close>

text \<open>
  Claim C1: for every timestamp \<open>t\<close>, \<open>timeFracDay\<close> equals
  \<open>(hour + minute/60 + second/3600) / 24\<close>.

  The code does not do this. The quotient \<^verbatim>\<open>second(t)/60\<close> of line 249 is a quotient
  of integers, 0 at every \<open>t\<close>, and the cast to \<^verbatim>\<open>double\<close> comes after it: the
  result is \<open>(hour + minute/60) / 24\<close>. At \<open>t = 30\<close> (00:00:30) the code stores 0, and
  the claimed value is \<open>1/2880\<close>.
\<close>

theorem timeFracDay_drops_seconds:
  "timeFracDay (calcSolar u t SE)
     = Fin ((real_of_int (hour t) + real_of_int (minute t) / 60) / 24) \<and>
   timeFracDay (calcSolar u 30 SE) = Fin 0 \<and>
   (real_of_int (hour 30) + real_of_int (minute 30) / 60 + real_of_int (second 30) / 3600) / 24
     = 1 / 2880"
  by (simp add: timeFracDay_code hour_def minute_def second_def add.commute)

text \<open>
  Claim C2: \<^verbatim>\<open>getOC(t)\<close> returns the field \<open>MOE\<close> of the result, not the field
  \<open>OC\<close>, although \<^verbatim>\<open>calcSolar\<close> computes and stores \<open>OC\<close>: the accessor agrees
  with \<^verbatim>\<open>getMOE\<close>, the stored \<open>OC\<close> is \<open>MOE\<close> plus the cosine correction, and on
  2006-06-20, 00:00 UTC (time zone 0) the value returned is not the stored \<open>OC\<close>.
\<close>

theorem getOC_returns_MOE:
  "fst (getOC u t SE) = MOE (calcSolar u t SE) \<and>
   snd (getOC u t SE) = calcSolar u t SE \<and>
   getOC u t SE = getMOE u t SE \<and>
   OC (calcSolar u t SE) =
     MOE (calcSolar u t SE)
     + 0.00256 * cos_d ((125.04 - 1934.136 * JCN (calcSolar u t SE)) * DEG_TO_RAD) \<and>
   fst (getOC u 1150761600 (initSolarCalc 0 la lo SE))
     \<noteq> OC (calcSolar u 1150761600 (initSolarCalc 0 la lo SE))"
proof -
  have "tzOffset (initSolarCalc 0 la lo SE) = 0"
    by (simp add: initSolarCalc_def)
  then have "OC (calcSolar u 1150761600 (initSolarCalc 0 la lo SE))
      \<noteq> MOE (calcSolar u 1150761600 (initSolarCalc 0 la lo SE))"
    by (rule OC_differs_2006)
  then show ?thesis
    by (simp add: getOC_def getMOE_def Let_def calcSolar_OC)
qed

text \<open>
  Claim C3: for every timestamp \<open>t\<close>, also a negative one, \<open>unixDays\<close> is
  \<open>floor (t / 86400)\<close>.

  The division of the code truncates towards zero. At \<open>t = -1\<close> it gives 0, and the
  floor is \<open>-1\<close>.
\<close>

theorem unixDays_floor_counterexample:
  "unixDays (calcSolar 0 (- 1) SE_static) \<noteq> \<lfloor>real_of_int (- 1) / 86400\<rfloor>"
  by (simp add: calcSolar_unixDays c_div_def)

text \<open>
  Claim C3, amended: \<open>unixDays\<close> is the quotient \<open>t / 86400\<close> truncated towards zero:
  its floor for \<open>t \<ge> 0\<close>, its ceiling for \<open>t < 0\<close>.
\<close>

theorem unixDays_truncated:
  "unixDays (calcSolar u t SE) =
     (if 0 \<le> t then \<lfloor>real_of_int t / 86400\<rfloor> else \<lceil>real_of_int t / 86400\<rceil>)"
proof (cases "0 \<le> t")
  case True
  have "\<lfloor>real_of_int t / 86400\<rfloor> = t div 86400"
    using floor_divide_real_eq_div [of 86400 "real_of_int t"] by simp
  with True show ?thesis
    by (simp add: calcSolar_unixDays c_div_nonneg)
next
  case False
  have "\<lceil>real_of_int t / 86400\<rceil> = - \<lfloor>real_of_int (- t) / 86400\<rfloor>"
    by (simp add: ceiling_def)
  also have "\<dots> = - ((- t) div 86400)"
    using floor_divide_real_eq_div [of 86400 "real_of_int (- t)"] by simp
  finally show ?thesis using False
    by (simp add: calcSolar_unixDays c_div_neg)
qed

text \<open>
  Claim C4: for every \<open>t\<close> and \<open>\<Delta>\<close>, \<^verbatim>\<open>calcSolar\<close> at timestamp \<open>t\<close> with time
  zone 0 and at timestamp \<open>t - 3600 * \<Delta>\<close> with time zone \<open>\<Delta>\<close> give the same instants
  of sunrise, sunset and solar noon, up to truncation.

  This fails at \<open>t = 86400\<close>, \<open>\<Delta> = 1\<close> (latitude and longitude 0): the second timestamp
  lies in the day before, and the two solar noons are more than 30000 seconds apart,
  which no offset of one hour and no truncation accounts for.
\<close>

theorem time_zone_shift_counterexample:
  "SolarNoonTime (calcSolar 0 (86400 - 3600 * 1) (initSolarCalc 1 0 0 SE_static)) + 30000
     < SolarNoonTime (calcSolar 0 86400 (initSolarCalc 0 0 0 SE_static))"
proof -
  let ?S1 = "initSolarCalc 0 0 0 SE_static" and ?S2 = "initSolarCalc 1 0 0 SE_static"
  have j1: "JCN (calcSolar 0 86400 ?S1) = Fin (- 21913 / 73050)"
    by (simp add: calcSolar_JCN_value c_div_def minute_def hour_def initSolarCalc_def)
  have j2: "JCN (calcSolar 0 82800 ?S2) = Fin (- 131479 / 438300)"
    by (simp add: calcSolar_JCN_value c_div_def minute_def hour_def initSolarCalc_def)
  have l: "lon ?S1 = 0" "lon ?S2 = 0"
    by (simp_all add: initSolarCalc_def)
  have "86400 * c_div 86400 86400 + 3600 * tzOffset ?S1 + 19200 \<le> SolarNoonTime (calcSolar 0 86400 ?S1)"
    using j1 _ l(1) by (rule noon_time_bounds) simp
  then have a: "105600 \<le> SolarNoonTime (calcSolar 0 86400 ?S1)"
    by (simp add: c_div_def initSolarCalc_def)
  have "SolarNoonTime (calcSolar 0 82800 ?S2) \<le> 86400 * c_div 82800 86400 + 3600 * tzOffset ?S2 + 67200"
    using j2 _ l(2) by (rule noon_time_bounds) simp
  then have b: "SolarNoonTime (calcSolar 0 82800 ?S2) \<le> 70800"
    by (simp add: c_div_def initSolarCalc_def)
  from a b show ?thesis by simp
qed

text \<open>
  Claim C4, amended: a zone \<open>\<Delta>\<close> hours east of UTC has the local clock
  \<open>t + 3600 * \<Delta>\<close>. For \<open>t \<ge> 0\<close> and \<open>t + 3600 * \<Delta> \<ge> 0\<close> in the same day of the
  epoch, \<^verbatim>\<open>calcSolar\<close> at \<open>t\<close> with time zone 0 and at \<open>t + 3600 * \<Delta>\<close> with time zone
  \<open>\<Delta>\<close> give the same Julian day and the same sun, and \<open>Sunrise\<close>, \<open>Sunset\<close> and solar
  noon of the second are those of the first plus \<open>3600 * \<Delta>\<close> seconds: the same instants,
  each on its own clock (in the exact arithmetic of the model).
\<close>

theorem time_zone_shift:
  fixes u t dz :: int and la lo :: double and SE :: SolarElements
  assumes "0 \<le> t" "0 \<le> t + 3600 * dz" "(t + 3600 * dz) div 86400 = t div 86400"
  defines "A \<equiv> calcSolar u t (initSolarCalc 0 la lo SE)"
    and "B \<equiv> calcSolar u (t + 3600 * dz) (initSolarCalc dz la lo SE)"
  shows "Sunrise B = Sunrise A + double_of_int (3600 * dz) \<and>
         Sunset B = Sunset A + double_of_int (3600 * dz) \<and>
         SolarNoonDays B * 86400 = SolarNoonDays A * 86400 + double_of_int (3600 * dz) \<and>
         JDN B = JDN A \<and> EOT B = EOT A \<and> HAS B = HAS A \<and> SunDuration B = SunDuration A \<and>
         TST B = TST A \<and> HA B = HA A \<and> SEA B = SEA A \<and> SEC_Corr B = SEC_Corr A \<and> SAA B = SAA A"
proof -
  let ?SA = "initSolarCalc 0 la lo SE" and ?SB = "initSolarCalc dz la lo SE"
  note A = A_def and B = B_def
  have cfg: "tzOffset ?SA = 0" "tzOffset ?SB = dz" "lat ?SB = lat ?SA" "lon ?SB = lon ?SA"
    "HA ?SB = HA ?SA"
    by (simp_all add: initSolarCalc_def)
  note sh = shift_clock [OF assms(1,2,3)]
  have f1: "timeFracDay B = timeFracDay A + double_of_int dz / 24"
    unfolding A B by (simp add: timeFracDay_code sh double_of_int_def add_divide_distrib)
  have f2: "unixDays B = unixDays A"
    unfolding A B by (simp add: calcSolar_unixDays sh)
  have f3: "JDN B = JDN A"
    unfolding A B
    by (simp add: calcSolar_JDN calcSolar_unixDays timeFracDay_code sh cfg double_of_int_def
        julianUnixEpoch_def add_divide_distrib)
  have f4: "JCN B = JCN A"
    using f3 unfolding A B by (simp add: calcSolar_JCN)
  have f5: "GMLS B = GMLS A"
    using f4 unfolding A B by (simp add: calcSolar_GMLS)
  have f6: "GMAS B = GMAS A"
    using f4 unfolding A B by (simp add: calcSolar_GMAS)
  have f7: "EEO B = EEO A"
    using f4 unfolding A B by (simp add: calcSolar_EEO)
  have f8: "SEC B = SEC A"
    using f4 f6 unfolding A B by (simp add: calcSolar_SEC)
  have f9: "STL B = STL A"
    using f5 f8 unfolding A B by (simp add: calcSolar_STL)
  have f12: "SAL B = SAL A"
    using f9 f4 unfolding A B by (simp add: calcSolar_SAL)
  have f13: "MOE B = MOE A"
    using f4 unfolding A B by (simp add: calcSolar_MOE)
  have f14: "OC B = OC A"
    using f13 f4 unfolding A B by (simp add: calcSolar_OC)
  have f16: "SDec B = SDec A"
    using f14 f12 unfolding A B by (simp add: calcSolar_SDec)
  have f17: "vy B = vy A"
    using f14 unfolding A B by (simp add: calcSolar_vy)
  have f18: "EOT B = EOT A"
    using f17 f5 f7 f6 unfolding A B by (simp add: calcSolar_EOT)
  have f19: "HAS B = HAS A"
    using f16 unfolding A B by (simp add: calcSolar_HAS cfg)
  have f20: "SolarNoonfrac B = SolarNoonfrac A"
    using f18 unfolding A B by (simp add: calcSolar_SolarNoonfrac cfg)
  have f21: "SolarNoonDays B * 86400 = SolarNoonDays A * 86400 + double_of_int (3600 * dz)"
    using f2 f20 unfolding A B
    by (cases "SolarNoonfrac (calcSolar u t ?SA)")
      (simp_all add: calcSolar_SolarNoonDays cfg double_of_int_def algebra_simps)
  have f23: "Sunrise B = Sunrise A + double_of_int (3600 * dz)"
    using f2 f20 f19 unfolding A B
    by (cases "SolarNoonfrac (calcSolar u t ?SA)"; cases "HAS (calcSolar u t ?SA)")
      (simp_all add: calcSolar_Sunrise cfg double_of_int_def algebra_simps)
  have f25: "Sunset B = Sunset A + double_of_int (3600 * dz)"
    using f2 f20 f19 unfolding A B
    by (cases "SolarNoonfrac (calcSolar u t ?SA)"; cases "HAS (calcSolar u t ?SA)")
      (simp_all add: calcSolar_Sunset cfg double_of_int_def algebra_simps)
  have f27: "SunDuration B = SunDuration A"
    using f19 unfolding A B by (simp add: calcSolar_SunDuration)
  have f28: "TST B = TST A"
    using f18 unfolding A B
    by (cases "EOT (calcSolar u t ?SA)"; cases lo)
      (simp_all add: calcSolar_TST timeFracDay_code sh cfg double_of_int_def Let_def
        initSolarCalc_def add_divide_distrib add.assoc)
  have f29: "HA B = HA A"
    using f28 unfolding A B by (simp add: calcSolar_HA cfg)
  have f30: "SZA B = SZA A"
    using f16 f29 unfolding A B by (simp add: calcSolar_SZA cfg)
  have f31: "SEA B = SEA A"
    using f30 unfolding A B by (simp add: calcSolar_SEA)
  have f32: "AAR B = AAR A"
    using f31 unfolding A B by (simp add: calcSolar_AAR)
  have f33: "SEC_Corr B = SEC_Corr A"
    using f31 f32 unfolding A B by (simp add: calcSolar_SEC_Corr)
  have f34: "SAA B = SAA A"
    using f16 f29 f30 unfolding A B by (simp add: calcSolar_SAA cfg)
  from f3 f18 f19 f21 f23 f25 f27 f28 f29 f31 f33 f34 show ?thesis
    by simp
qed

text \<open>The hypotheses hold at 2012-12-21, 12:00 UTC and \<open>\<Delta> = 1\<close>, where the sun rises.\<close>

theorem time_zone_shift_witness:
  "Sunrise (calcSolar 0 (1356091200 + 3600 * 1) (initSolarCalc 1 0 0 SE_static))
     = Sunrise (calcSolar 0 1356091200 (initSolarCalc 0 0 0 SE_static)) + double_of_int (3600 * 1) \<and>
   Sunset (calcSolar 0 (1356091200 + 3600 * 1) (initSolarCalc 1 0 0 SE_static))
     = Sunset (calcSolar 0 1356091200 (initSolarCalc 0 0 0 SE_static)) + double_of_int (3600 * 1) \<and>
   SolarNoonDays (calcSolar 0 (1356091200 + 3600 * 1) (initSolarCalc 1 0 0 SE_static)) * 86400
     = SolarNoonDays (calcSolar 0 1356091200 (initSolarCalc 0 0 0 SE_static)) * 86400
       + double_of_int (3600 * 1) \<and>
   Sunrise (calcSolar 0 1356091200 (initSolarCalc 0 0 0 SE_static)) \<noteq> NaN"
proof -
  have h: "(0::int) \<le> 1356091200" "(0::int) \<le> 1356091200 + 3600 * 1"
    "((1356091200::int) + 3600 * 1) div 86400 = 1356091200 div 86400"
    by simp_all
  let ?S = "initSolarCalc 0 0 0 SE_static"
  have cfg: "tzOffset ?S = 0" "lat ?S = 0" "lon ?S = Fin 0"
    by (simp_all add: initSolarCalc_def)
  have "Sunrise (calcSolar 0 1356091200 ?S) \<noteq> NaN"
    using equator_day_values [OF cfg, of 0] by auto
  then show ?thesis
    using time_zone_shift [OF h, of 0 0 0 SE_static] by simp
qed








text \<open>
  Claim C8: the refraction correction \<open>AAR\<close> is piecewise in the elevation \<open>SEA\<close> with
  the breakpoints 85, 5 and \<open>-0.575\<close>: 0 above 85, \<open>-20.772 / tan SEA\<close> divided by 3600
  at or below \<open>-0.575\<close>, and every branch divided by 3600. The last branch is the one
  taken when no comparison holds, which for an elevation that is a number means
  \<open>SEA \<le> -0.575\<close>; latitude 75 north on 2012-12-21, 12:00 UTC is an input that takes it.
\<close>

theorem AAR_piecewise:
  fixes u :: int and lo :: real and SE SE' :: SolarElements
  defines "P \<equiv> calcSolar u 1356091200 (initSolarCalc 0 75 (Fin lo) SE')"
  shows
  "AAR (calcSolar u t SE) =
     (if SEA (calcSolar u t SE) > 85 then 0
      else (if SEA (calcSolar u t SE) > 5 then
              58.1 / tan_d (SEA (calcSolar u t SE) * DEG_TO_RAD)
              - 0.07 / pow_d (tan_d (SEA (calcSolar u t SE) * DEG_TO_RAD)) 3
              + 0.000086 / pow_d (tan_d (SEA (calcSolar u t SE) * DEG_TO_RAD)) 5
            else if SEA (calcSolar u t SE) > - 0.575 then
              1735 + SEA (calcSolar u t SE) * (- 581.2 * SEA (calcSolar u t SE) *
                (103.4 + SEA (calcSolar u t SE) * (- 12.79 + SEA (calcSolar u t SE) * 0.711)))
            else - 20.772 / tan_d (SEA (calcSolar u t SE) * DEG_TO_RAD)) / 3600) \<and>
   (SEA (calcSolar u t SE) \<le> - 0.575) =
     (SEA (calcSolar u t SE) \<noteq> NaN \<and> \<not> SEA (calcSolar u t SE) > 85 \<and>
      \<not> SEA (calcSolar u t SE) > 5 \<and> \<not> SEA (calcSolar u t SE) > - 0.575) \<and>
   SEA P \<le> - 0.575 \<and> AAR P = - 20.772 / tan_d (SEA P * DEG_TO_RAD) / 3600 \<and> AAR P \<noteq> NaN"
proof -
  let ?S = "initSolarCalc 0 75 (Fin lo) SE'"
  have cfg: "tzOffset ?S = 0" "lat ?S = 75" "lon ?S = Fin lo"
    by (simp_all add: initSolarCalc_def)
  note p = polar_refraction [OF cfg, of u, folded P_def] polar_values(7) [OF cfg, of u, folded P_def]
  show ?thesis
    using p by (cases "SEA (calcSolar u t SE)") (auto simp add: calcSolar_AAR)
qed

text \<open>
  Claim C9: after \<^verbatim>\<open>initSolarCalc(tz, lat, lon)\<close> the three accessors return
  \<open>tz\<close>, \<open>lat\<close> and \<open>lon\<close>, also after any number of calculations in between; they
  leave the state as it is; and \<^verbatim>\<open>initSolarCalc\<close> writes these three fields only:
  putting their old values back gives the old state.
\<close>

theorem config_accessors:
  "fst (gettzOffset (fold (calcSolar u) ts (initSolarCalc tz la lo SE))) = tz \<and>
   fst (getlat (fold (calcSolar u) ts (initSolarCalc tz la lo SE))) = la \<and>
   fst (getlon (fold (calcSolar u) ts (initSolarCalc tz la lo SE))) = lo \<and>
   snd (gettzOffset SE) = SE \<and> snd (getlat SE) = SE \<and> snd (getlon SE) = SE \<and>
   (initSolarCalc tz la lo SE)\<lparr>tzOffset := tzOffset SE, lat := lat SE, lon := lon SE\<rparr> = SE"
  by (simp add: gettzOffset_def getlat_def getlon_def fold_calcSolar_config initSolarCalc_def)




end
